theory Spec2Isabelle
  imports Main
begin

section \<open>Strings\<close>

text \<open>
  JavaScript's \<^verbatim>\<open>toLowerCase\<close> and \<^verbatim>\<open>trim\<close> and the regular expression class
  \<^verbatim>\<open>\s\<close>, on the ASCII range: a \<open>char\<close> is one byte, and the letters and the white
  space beyond ASCII are left as they are.
\<close>

definition lower_char :: "char \<Rightarrow> char" where
  "lower_char c =
     (case map_of (zip ''ABCDEFGHIJKLMNOPQRSTUVWXYZ'' ''abcdefghijklmnopqrstuvwxyz'') c of
        Some d \<Rightarrow> d | None \<Rightarrow> c)"

definition toLowerCase :: "string \<Rightarrow> string" where
  "toLowerCase s = map lower_char s"

definition is_space :: "char \<Rightarrow> bool" where
  "is_space c = (c \<in> set [CHR '' '', CHR 0x09, CHR 0x0A, CHR 0x0B, CHR 0x0C, CHR 0x0D])"

definition trim :: "string \<Rightarrow> string" where
  "trim s = rev (dropWhile is_space (rev (dropWhile is_space s)))"

section \<open>Constants: HTTP status codes, permissions, roles\<close>

text \<open>\<^verbatim>\<open>constants/httpStatus.ts\<close>.\<close>

definition OK :: nat where "OK = 200"
definition CREATED :: nat where "CREATED = 201"
definition BAD_REQUEST :: nat where "BAD_REQUEST = 400"
definition UNAUTHORIZED :: nat where "UNAUTHORIZED = 401"
definition FORBIDDEN :: nat where "FORBIDDEN = 403"
definition NOT_FOUND :: nat where "NOT_FOUND = 404"
definition CONFLICT :: nat where "CONFLICT = 409"
definition INTERNAL_SERVER_ERROR :: nat where "INTERNAL_SERVER_ERROR = 500"

text \<open>
  Everything the code throws or passes to \<^verbatim>\<open>next\<close>/\<^verbatim>\<open>done\<close>:
  \<^verbatim>\<open>ApiError(statusCode, message)\<close> of \<^verbatim>\<open>errors/ApiError.ts\<close>, a plain
  \<^verbatim>\<open>new Error(message)\<close>, and the errors of Mongoose and the MongoDB driver
  (a validation error with the model name and its (path, message) pairs, a server error with
  its code and the field of its key pattern, a cast error with path and value), and the
  \<^verbatim>\<open>TypeError\<close> of reading a property of \<^verbatim>\<open>undefined\<close>.
\<close>

datatype error =
    ApiError nat string
  | Error string
  | ValidationError string "(string \<times> string) list"
  | MongoServerError nat string
  | CastError string string
  | TypeError string

text \<open>\<^verbatim>\<open>Array.prototype.join\<close> on strings.\<close>

fun join :: "string \<Rightarrow> string list \<Rightarrow> string" where
  "join sep [] = []"
| "join sep [x] = x"
| "join sep (x # y # ys) = x @ sep @ join sep (y # ys)"

text \<open>\<^verbatim>\<open>constants/permissions.ts\<close>: a permission is its string.\<close>

type_synonym PermissionType = string

definition MANAGE_USERS :: PermissionType where "MANAGE_USERS = ''manageUsers''"
definition GET_USERS :: PermissionType where "GET_USERS = ''getUsers''"
definition GET_PROFILE :: PermissionType where "GET_PROFILE = ''getProfile''"
definition UPDATE_OWN_PROFILE :: PermissionType where "UPDATE_OWN_PROFILE = ''updateOwnProfile''"

text \<open>
  \<^verbatim>\<open>constants/roles.ts\<close>. At run time a role is the string a token or a document
  carries, so the registry is a lookup on strings.
\<close>

type_synonym RoleType = string

definition ADMIN :: RoleType where "ADMIN = ''admin''"
definition USER :: RoleType where "USER = ''user''"
definition THERAPIST :: RoleType where "THERAPIST = ''therapist''"

definition ALL_ROLES :: "RoleType list" where
  "ALL_ROLES = [ADMIN, USER, THERAPIST]"

definition RolePermissions :: "(RoleType \<times> PermissionType list) list" where
  "RolePermissions =
     [(ADMIN, [MANAGE_USERS, GET_USERS, GET_PROFILE, UPDATE_OWN_PROFILE]),
      (USER, [GET_PROFILE, UPDATE_OWN_PROFILE]),
      (THERAPIST, [GET_PROFILE, UPDATE_OWN_PROFILE])]"

text \<open>
  \<^verbatim>\<open>RolePermissions\<close> is an object literal, so \<^verbatim>\<open>RolePermissions[role]\<close> reads its own
  three properties first and then its prototype chain: for a role named like a member of
  \<^verbatim>\<open>Object.prototype\<close> the lookup finds that member, a function (for \<^verbatim>\<open>__proto__\<close>
  the prototype object itself). Each of them is truthy, so \<^verbatim>\<open>|| []\<close> keeps it; the
  empty list is the value only for a role that is found nowhere. The value of the lookup
  is therefore a list of permissions or an inherited member, which is no array.
\<close>

definition Object_prototype_members :: "string list" where
  "Object_prototype_members =
     [''constructor'', ''__defineGetter__'', ''__defineSetter__'', ''hasOwnProperty'',
      ''__lookupGetter__'', ''__lookupSetter__'', ''isPrototypeOf'', ''propertyIsEnumerable'',
      ''toString'', ''valueOf'', ''__proto__'', ''toLocaleString'']"

datatype permissions_value =
    PermissionList "PermissionType list"
  | InheritedMember string

definition getPermissionsForRole :: "RoleType \<Rightarrow> permissions_value" where
  "getPermissionsForRole r =
     (case map_of RolePermissions r of
        Some ps \<Rightarrow> PermissionList ps
      | None \<Rightarrow> if r \<in> set Object_prototype_members then InheritedMember r
                else PermissionList [])"

text \<open>
  \<^verbatim>\<open>v.includes(permission)\<close> where \<open>v\<close> came from the lookup: the membership test on a
  list; an inherited member has no \<^verbatim>\<open>includes\<close>, and the call throws the
  \<^verbatim>\<open>TypeError\<close> that names the callee \<open>callee\<close>.
\<close>

definition permissions_includes :: "string \<Rightarrow> permissions_value \<Rightarrow> PermissionType \<Rightarrow> error + bool" where
  "permissions_includes callee v permission =
     (case v of
        PermissionList ps \<Rightarrow> Inr (permission \<in> set ps)
      | InheritedMember m \<Rightarrow> Inl (TypeError (callee @ ''.includes is not a function'')))"

definition roleHasPermission :: "RoleType \<Rightarrow> PermissionType \<Rightarrow> error + bool" where
  "roleHasPermission r p = permissions_includes ''permissions'' (getPermissionsForRole r) p"

text \<open>
  \<^verbatim>\<open>Array.prototype.some\<close> and \<^verbatim>\<open>Array.prototype.every\<close> with a callback that may
  throw: the elements are visited in order, up to the first that decides or throws.
\<close>

fun Array_some :: "('a \<Rightarrow> error + bool) \<Rightarrow> 'a list \<Rightarrow> error + bool" where
  "Array_some f [] = Inr False"
| "Array_some f (x # xs) =
     (case f x of Inl e \<Rightarrow> Inl e | Inr b \<Rightarrow> if b then Inr True else Array_some f xs)"

fun Array_every :: "('a \<Rightarrow> error + bool) \<Rightarrow> 'a list \<Rightarrow> error + bool" where
  "Array_every f [] = Inr True"
| "Array_every f (x # xs) =
     (case f x of Inl e \<Rightarrow> Inl e | Inr b \<Rightarrow> if b then Array_every f xs else Inr False)"

section \<open>The token codec\<close>

text \<open>
  \<^verbatim>\<open>config/token.config.ts\<close>: \<^verbatim>\<open>jwtConfig\<close> is read from the environment when the
  process starts, so it is a parameter of everything that signs or verifies. The two
  expirations are the configured spans in seconds (\<^verbatim>\<open>'15m'\<close> is 900, \<^verbatim>\<open>'7d'\<close> is 604800).
\<close>

record jwt_config =
  accessSecret :: string
  refreshSecret :: string
  accessExpiration :: nat
  refreshExpiration :: nat
  issuer :: string
  audience :: string

text \<open>
  \<^verbatim>\<open>JwtPayload\<close>. The interface declares the three application fields as strings; what
  \<^verbatim>\<open>jwt.verify\<close> returns is whatever the verified token holds, so each field may be absent
  (\<^verbatim>\<open>undefined\<close>), and the code tests for that.
\<close>

record JwtPayload =
  userId :: "string option"
  email_J :: "string option"
  role_J :: "string option"
  iat :: "nat option"
  exp :: "nat option"
  nbf :: "nat option"
  iss :: "string option"
  aud :: "string option"

text \<open>
  The library \<^verbatim>\<open>jsonwebtoken\<close> with HS256. A token string is modelled by what it decodes
  to: a well-formed token is the secret its signature was made with and its claims (the
  serialisation and the HMAC are deterministic, so equal secret and claims give the equal
  string); any other string is \<open>Garbage\<close>. Times are milliseconds (\<^verbatim>\<open>Date.now()\<close>); the
  library's clock is whole seconds.
\<close>

datatype token = Jwt string JwtPayload | Garbage string

datatype jwt_error = TokenExpiredError string | JsonWebTokenError string | NotBeforeError string

fun jwt_message :: "jwt_error \<Rightarrow> string" where
  "jwt_message (TokenExpiredError m) = m"
| "jwt_message (JsonWebTokenError m) = m"
| "jwt_message (NotBeforeError m) = m"

text \<open>
  \<^verbatim>\<open>jwt.sign(payload, secret, {expiresIn, issuer, audience})\<close>: the payload with
  \<^verbatim>\<open>iat\<close> the current second, \<^verbatim>\<open>exp = iat + expiresIn\<close>, \<^verbatim>\<open>iss\<close> and \<^verbatim>\<open>aud\<close>.
\<close>

definition jwt_sign :: "string option \<Rightarrow> string option \<Rightarrow> string option \<Rightarrow> string \<Rightarrow> nat \<Rightarrow>
    string \<Rightarrow> string \<Rightarrow> nat \<Rightarrow> token" where
  "jwt_sign uid em rl secret expiresIn issuer' audience' now =
     Jwt secret \<lparr>userId = uid, email_J = em, role_J = rl,
       iat = Some (now div 1000), exp = Some (now div 1000 + expiresIn), nbf = None,
       iss = Some issuer', aud = Some audience'\<rparr>"

text \<open>
  \<^verbatim>\<open>jwt.verify(token, secret, {issuer, audience})\<close>, in the library's order: structure,
  signature, not-before, expiry (\<^verbatim>\<open>clock >= exp\<close>), audience, issuer.
\<close>

fun jwt_verify :: "token \<Rightarrow> string \<Rightarrow> string \<Rightarrow> string \<Rightarrow> nat \<Rightarrow> jwt_error + JwtPayload" where
  "jwt_verify (Garbage s) secret issuer' audience' now = Inl (JsonWebTokenError ''jwt malformed'')"
| "jwt_verify (Jwt k p) secret issuer' audience' now =
     (if k \<noteq> secret then Inl (JsonWebTokenError ''invalid signature'')
      else if (case nbf p of Some n \<Rightarrow> now div 1000 < n | None \<Rightarrow> False)
        then Inl (NotBeforeError ''jwt not active'')
      else if (case exp p of Some e \<Rightarrow> e \<le> now div 1000 | None \<Rightarrow> False)
        then Inl (TokenExpiredError ''jwt expired'')
      else if aud p \<noteq> Some audience'
        then Inl (JsonWebTokenError (''jwt audience invalid. expected: '' @ audience'))
      else if iss p \<noteq> Some issuer'
        then Inl (JsonWebTokenError (''jwt issuer invalid. expected: '' @ issuer'))
      else Inr p)"

text \<open>
  \<^verbatim>\<open>services/token.service.ts\<close>. \<^verbatim>\<open>generateTokenPair\<close> is declared on strings; the
  refresh path passes \<^verbatim>\<open>payload.role\<close>, which may be absent, so the role is an option.
\<close>

record TokenPair =
  accessToken :: token
  refreshToken :: token

definition generateAccessToken :: "jwt_config \<Rightarrow> nat \<Rightarrow> string \<Rightarrow> string \<Rightarrow> string option \<Rightarrow> token" where
  "generateAccessToken cfg now uid em rl =
     jwt_sign (Some uid) (Some em) rl (accessSecret cfg) (accessExpiration cfg)
       (issuer cfg) (audience cfg) now"

definition generateRefreshToken :: "jwt_config \<Rightarrow> nat \<Rightarrow> string \<Rightarrow> string \<Rightarrow> string option \<Rightarrow> token" where
  "generateRefreshToken cfg now uid em rl =
     jwt_sign (Some uid) (Some em) rl (refreshSecret cfg) (refreshExpiration cfg)
       (issuer cfg) (audience cfg) now"

definition generateTokenPair :: "jwt_config \<Rightarrow> nat \<Rightarrow> string \<Rightarrow> string \<Rightarrow> string option \<Rightarrow> TokenPair" where
  "generateTokenPair cfg now uid em rl =
     \<lparr>accessToken = generateAccessToken cfg now uid em rl,
      refreshToken = generateRefreshToken cfg now uid em rl\<rparr>"

definition verifyAccessToken :: "jwt_config \<Rightarrow> nat \<Rightarrow> token \<Rightarrow> error + JwtPayload" where
  "verifyAccessToken cfg now t =
     (case jwt_verify t (accessSecret cfg) (issuer cfg) (audience cfg) now of
        Inr p \<Rightarrow> Inr p
      | Inl (TokenExpiredError m) \<Rightarrow> Inl (ApiError UNAUTHORIZED ''Access token expired'')
      | Inl (JsonWebTokenError m) \<Rightarrow> Inl (ApiError UNAUTHORIZED ''Invalid access token'')
      | Inl (NotBeforeError m) \<Rightarrow> Inl (ApiError UNAUTHORIZED ''Token verification failed''))"

definition verifyRefreshToken :: "jwt_config \<Rightarrow> nat \<Rightarrow> token \<Rightarrow> error + JwtPayload" where
  "verifyRefreshToken cfg now t =
     (case jwt_verify t (refreshSecret cfg) (issuer cfg) (audience cfg) now of
        Inr p \<Rightarrow> Inr p
      | Inl (TokenExpiredError m) \<Rightarrow> Inl (ApiError UNAUTHORIZED ''Refresh token expired'')
      | Inl (JsonWebTokenError m) \<Rightarrow> Inl (ApiError UNAUTHORIZED ''Invalid refresh token'')
      | Inl (NotBeforeError m) \<Rightarrow> Inl (ApiError UNAUTHORIZED ''Token verification failed''))"

section \<open>The request authenticator and the authorization gate\<close>

text \<open>
  \<^verbatim>\<open>types/express.d.ts\<close>: the identity on \<^verbatim>\<open>req.user\<close> is the object the JWT
  strategy hands to \<^verbatim>\<open>done\<close>, spread, plus \<^verbatim>\<open>permissions\<close>. The fields carry the
  suffix \<open>_R\<close>, since \<^verbatim>\<open>id\<close> and the names of the user document's fields are taken.
\<close>

record jwt_user =
  id_R :: string
  email_R :: string
  name_R :: string
  role_R :: RoleType

record req_user = jwt_user +
  permissions :: permissions_value

text \<open>
  The part of an Express request the gates read: the \<^verbatim>\<open>Authorization\<close> header as
  \<^verbatim>\<open>passport-jwt\<close> parses it (scheme and credentials), the path parameter \<^verbatim>\<open>id\<close>, and
  \<^verbatim>\<open>req.user\<close>. A middleware returns \<open>Inl e\<close> for \<^verbatim>\<open>next(e)\<close> and \<open>Inr req\<close> for
  \<^verbatim>\<open>next()\<close> with the request as it left it.
\<close>

record request =
  authorization :: "(string \<times> token) option"
  params_id :: string
  user :: "req_user option"

text \<open>
  What a strategy's verify callback hands to \<^verbatim>\<open>done\<close>: \<^verbatim>\<open>done(err, ...)\<close>,
  \<^verbatim>\<open>done(null, false)\<close> or \<^verbatim>\<open>done(null, user)\<close>.
\<close>

datatype 'u done_result = DoneError error | DoneFalse | DoneUser 'u

text \<open>
  \<^verbatim>\<open>config/passport.config.ts\<close>, the JWT strategy's callback. \<^verbatim>\<open>!payload.userId\<close> holds
  for an absent field and for the empty string.
\<close>

definition falsy :: "string option \<Rightarrow> bool" where
  "falsy v = (case v of None \<Rightarrow> True | Some s \<Rightarrow> s = [])"

definition jwt_strategy_callback :: "JwtPayload \<Rightarrow> jwt_user done_result" where
  "jwt_strategy_callback payload =
     (if falsy (userId payload) \<or> falsy (email_J payload) \<or> falsy (role_J payload)
      then DoneFalse
      else (case (userId payload, email_J payload, role_J payload) of
              (Some u, Some e, Some r) \<Rightarrow>
                DoneUser \<lparr>id_R = u, email_R = e, name_R = [], role_R = r\<rparr>
            | _ \<Rightarrow> DoneFalse))"

text \<open>
  The library \<^verbatim>\<open>passport-jwt\<close> as the strategy options configure it:
  \<^verbatim>\<open>ExtractJwt.fromAuthHeaderAsBearerToken()\<close> takes the credentials of a header whose
  scheme is \<^verbatim>\<open>bearer\<close> in any case; without a token the strategy fails with
  \<^verbatim>\<open>Error("No auth token")\<close>, on a verification error with that error, and otherwise
  it runs the callback: \<^verbatim>\<open>error(err)\<close>, \<^verbatim>\<open>fail(info)\<close> or \<^verbatim>\<open>success(user)\<close>. The
  failure carries the \<^verbatim>\<open>message\<close> of its \<^verbatim>\<open>info\<close>, when there is one.
\<close>

datatype passport_result = Perror error | Pfail "string option" | Psuccess jwt_user

definition fromAuthHeaderAsBearerToken :: "request \<Rightarrow> token option" where
  "fromAuthHeaderAsBearerToken req =
     (case authorization req of
        None \<Rightarrow> None
      | Some (scheme, t) \<Rightarrow> if toLowerCase scheme = ''bearer'' then Some t else None)"

definition JwtStrategy_authenticate :: "jwt_config \<Rightarrow> nat \<Rightarrow> request \<Rightarrow> passport_result" where
  "JwtStrategy_authenticate cfg now req =
     (case fromAuthHeaderAsBearerToken req of
        None \<Rightarrow> Pfail (Some ''No auth token'')
      | Some t \<Rightarrow>
          (case jwt_verify t (accessSecret cfg) (issuer cfg) (audience cfg) now of
             Inl jwt_err \<Rightarrow> Pfail (Some (jwt_message jwt_err))
           | Inr payload \<Rightarrow>
               (case jwt_strategy_callback payload of
                  DoneError e \<Rightarrow> Perror e
                | DoneFalse \<Rightarrow> Pfail None
                | DoneUser u \<Rightarrow> Psuccess u)))"

text \<open>
  \<^verbatim>\<open>middlewares/auth.middleware.ts\<close>. \<^verbatim>\<open>info?.message || 'Unauthorized'\<close> is the
  message unless it is absent or empty.
\<close>

definition authenticate :: "jwt_config \<Rightarrow> nat \<Rightarrow> request \<Rightarrow> error + request" where
  "authenticate cfg now req =
     (case JwtStrategy_authenticate cfg now req of
        Perror err \<Rightarrow> Inl err
      | Pfail info \<Rightarrow>
          Inl (ApiError UNAUTHORIZED
                 (case info of None \<Rightarrow> ''Unauthorized''
                  | Some m \<Rightarrow> if m = [] then ''Unauthorized'' else m))
      | Psuccess u \<Rightarrow>
          Inr (req\<lparr>user := Some \<lparr>id_R = id_R u, email_R = email_R u, name_R = name_R u,
                 role_R = role_R u, permissions = getPermissionsForRole (role_R u)\<rparr>\<rparr>))"

text \<open>
  \<^verbatim>\<open>middlewares/permission.middleware.ts\<close>; \<^verbatim>\<open>requireOwnership\<close> with its default
  parameter name \<^verbatim>\<open>id\<close>. No route uses \<^verbatim>\<open>requireOwnership\<close>: the user routes check
  ownership at the head of their handlers. What a middleware throws, Express passes to
  \<^verbatim>\<open>next\<close>.
\<close>

definition requirePermission :: "PermissionType \<Rightarrow> request \<Rightarrow> error + request" where
  "requirePermission permission req =
     (case user req of
        None \<Rightarrow> Inl (ApiError UNAUTHORIZED ''Authentication required'')
      | Some u \<Rightarrow>
          (case permissions_includes ''req.user.permissions'' (permissions u) permission of
             Inl e \<Rightarrow> Inl e
           | Inr has \<Rightarrow>
               if \<not> has
               then Inl (ApiError FORBIDDEN
                           (''Permission denied. Required permission: '' @ permission))
               else Inr req))"

definition requireRole :: "RoleType \<Rightarrow> request \<Rightarrow> error + request" where
  "requireRole r req =
     (case user req of
        None \<Rightarrow> Inl (ApiError UNAUTHORIZED ''Authentication required'')
      | Some u \<Rightarrow>
          if role_R u \<noteq> r
          then Inl (ApiError FORBIDDEN (''Access denied. Required role: '' @ r))
          else Inr req)"

definition requireAnyPermission :: "PermissionType list \<Rightarrow> request \<Rightarrow> error + request" where
  "requireAnyPermission ps req =
     (case user req of
        None \<Rightarrow> Inl (ApiError UNAUTHORIZED ''Authentication required'')
      | Some u \<Rightarrow>
          (case Array_some (permissions_includes ''req.user.permissions'' (permissions u)) ps of
             Inl e \<Rightarrow> Inl e
           | Inr hasPermission \<Rightarrow>
               if \<not> hasPermission
               then Inl (ApiError FORBIDDEN
                           (''Permission denied. Required one of: '' @ join '', '' ps))
               else Inr req))"

definition requireAllPermissions :: "PermissionType list \<Rightarrow> request \<Rightarrow> error + request" where
  "requireAllPermissions ps req =
     (case user req of
        None \<Rightarrow> Inl (ApiError UNAUTHORIZED ''Authentication required'')
      | Some u \<Rightarrow>
          (case Array_every (permissions_includes ''req.user.permissions'' (permissions u)) ps of
             Inl e \<Rightarrow> Inl e
           | Inr hasAllPermissions \<Rightarrow>
               if \<not> hasAllPermissions
               then Inl (ApiError FORBIDDEN
                           (''Permission denied. Required all of: '' @ join '', '' ps))
               else Inr req))"

definition requireOwnership :: "request \<Rightarrow> error + request" where
  "requireOwnership req =
     (case user req of
        None \<Rightarrow> Inl (ApiError UNAUTHORIZED ''Authentication required'')
      | Some u \<Rightarrow>
          if id_R u = params_id req then Inr req
          else Inl (ApiError FORBIDDEN
                      ''Access denied. You can only access your own resources.''))"

text \<open>
  \<^verbatim>\<open>middlewares/validate.ts\<close> with \<^verbatim>\<open>userIdParamSchema\<close>: the path parameter is a
  string of at least one character.
\<close>

definition validate_userIdParam :: "request \<Rightarrow> error + request" where
  "validate_userIdParam req =
     (if params_id req = [] then Inl (ApiError BAD_REQUEST ''ID is required'') else Inr req)"

text \<open>
  \<^verbatim>\<open>routes/user.route.ts\<close>, \<^verbatim>\<open>GET /:id\<close>, after the router's \<^verbatim>\<open>authenticate\<close>: the
  validation, the permission gate, and the check at the head of the handler. \<open>Inr req\<close>
  stands for the call \<^verbatim>\<open>getUserById(req, res)\<close>. \<^verbatim>\<open>req.user!\<close> on a request without
  identity is a \<^verbatim>\<open>TypeError\<close>. The handler's condition is an \<^verbatim>\<open>&&\<close>: the permissions
  are read only when the ids differ.
\<close>

definition get_user_route :: "request \<Rightarrow> error + request" where
  "get_user_route req =
     (case validate_userIdParam req of
        Inl e \<Rightarrow> Inl e
      | Inr req1 \<Rightarrow>
          (case requireAnyPermission [GET_PROFILE, GET_USERS] req1 of
             Inl e \<Rightarrow> Inl e
           | Inr req2 \<Rightarrow>
               (case user req2 of
                  None \<Rightarrow> Inl (TypeError ''Cannot read properties of undefined'')
                | Some u \<Rightarrow>
                    if id_R u \<noteq> params_id req2
                    then (case permissions_includes ''req.user.permissions'' (permissions u)
                                 GET_USERS of
                            Inl e \<Rightarrow> Inl e
                          | Inr has \<Rightarrow>
                              if \<not> has
                              then Inl (ApiError FORBIDDEN ''You can only view your own profile'')
                              else Inr req2)
                    else Inr req2)))"

text \<open>The whole route: \<^verbatim>\<open>router.use(authenticate)\<close>, then the above.\<close>

definition users_router_get_id :: "jwt_config \<Rightarrow> nat \<Rightarrow> request \<Rightarrow> error + request" where
  "users_router_get_id cfg now req =
     (case authenticate cfg now req of Inl e \<Rightarrow> Inl e | Inr req1 \<Rightarrow> get_user_route req1)"

section \<open>The persistent store\<close>

text \<open>
  \<^verbatim>\<open>models/user.model.ts\<close>: a stored user document. \<open>id_U\<close> is \<^verbatim>\<open>_id\<close> as
  \<^verbatim>\<open>toString()\<close> prints it; times are milliseconds.
\<close>

record IUser =
  id_U :: string
  name :: string
  email :: string
  password :: "string option"
  role :: RoleType
  googleId :: "string option"
  profilePicture :: "string option"
  authProvider :: string
  createdAt :: nat
  updatedAt :: nat

text \<open>\<^verbatim>\<open>models/token.model.ts\<close>: a record of the refresh-token ledger.\<close>

record IToken =
  token :: token
  userId_T :: string
  expiresAt :: nat
  createdAt_T :: nat

text \<open>
  The two collections. The users are a list in insertion order, which is the order
  \<^verbatim>\<open>findOne\<close> searches; the unique indexes on \<^verbatim>\<open>_id\<close>, \<^verbatim>\<open>email\<close> and (sparse)
  \<^verbatim>\<open>googleId\<close> are enforced by the writes below. The ledger has a unique index on
  \<^verbatim>\<open>token\<close> and is only ever addressed by it, so it is a map from the token.
\<close>

record store =
  users :: "IUser list"
  tokens :: "token \<rightharpoonup> IToken"

text \<open>
  The calls on the two models, as the trace records them with the store each call left.
\<close>

datatype db_op =
    OpUserFindOneGoogleId string
  | OpUserFindOneEmail string
  | OpUserFindById "string option"
  | OpUserFindByIdAndUpdate string
  | OpUserSave string
  | OpTokenFindOne token
  | OpTokenDeleteOne token
  | OpTokenCreate token

text \<open>
  The world of one request: the store, what other requests will write to it
  (\<open>sched\<close>: at every \<^verbatim>\<open>await\<close> of a store call the event loop may run other
  requests before the call; the head of the list is what they do to the store then), and
  the trace of this request's store calls. An empty schedule is a request that runs alone.
\<close>

record world =
  db :: store
  sched :: "(store \<Rightarrow> store) list"
  trace :: "(db_op \<times> store) list"

definition interleave :: "world \<Rightarrow> world" where
  "interleave w = (case sched w of [] \<Rightarrow> w | f # fs \<Rightarrow> w\<lparr>db := f (db w), sched := fs\<rparr>)"

definition await :: "db_op \<Rightarrow> (store \<Rightarrow> 'a \<times> store) \<Rightarrow> world \<Rightarrow> 'a \<times> world" where
  "await op f w =
     (let w1 = interleave w; (r, s) = f (db w1)
      in (r, w1\<lparr>db := s, trace := trace w1 @ [(op, s)]\<rparr>))"

subsection \<open>Mongoose: casting, setters, validation\<close>

text \<open>
  A string casts to an \<^verbatim>\<open>ObjectId\<close> when it is 24 hexadecimal digits; the id prints in
  lower case. (The legacy 12-byte form is left out.)
\<close>

definition is_hex :: "char \<Rightarrow> bool" where
  "is_hex c = (c \<in> set ''0123456789abcdefABCDEF'')"

definition isObjectIdString :: "string \<Rightarrow> bool" where
  "isObjectIdString v = (length v = 24 \<and> list_all is_hex v)"

text \<open>
  The setters of the \<^verbatim>\<open>email\<close> path (\<^verbatim>\<open>lowercase: true, trim: true\<close>); Mongoose runs
  them on a document's value and on the value of a query filter alike.
\<close>

definition email_setters :: "string \<Rightarrow> string" where
  "email_setters v = trim (toLowerCase v)"

text \<open>The \<^verbatim>\<open>match\<close> validator of the path: \<^verbatim>\<open>/^\S+@\S+\.\S+$/\<close>.\<close>

definition email_match :: "string \<Rightarrow> bool" where
  "email_match v =
     (\<not> list_ex is_space v \<and>
      list_ex (\<lambda>i. v ! i = CHR ''@'' \<and>
                 list_ex (\<lambda>j. v ! j = CHR ''.'') [i + 2 ..< length v - 1])
        [1 ..< length v])"

text \<open>
  The validators of \<^verbatim>\<open>userSchema\<close>, path by path in the schema's order, each path
  reporting its first failure.
\<close>

definition validate_User :: "IUser \<Rightarrow> (string \<times> string) list" where
  "validate_User d =
     (if name d = [] then [(''name'', ''Name is required'')]
      else if length (name d) < 2 then [(''name'', ''Name must be at least 2 characters'')]
      else if 100 < length (name d)
        then [(''name'', ''Name must be less than 100 characters'')]
      else []) @
     (if email d = [] then [(''email'', ''Email is required'')]
      else if \<not> email_match (email d)
        then [(''email'', ''Please provide a valid email address'')]
      else []) @
     (case password d of
        None \<Rightarrow>
          if authProvider d = ''local'' then [(''password'', ''Path `password` is required.'')]
          else []
      | Some pw \<Rightarrow>
          if pw = [] \<and> authProvider d = ''local''
            then [(''password'', ''Path `password` is required.'')]
          else if length pw < 6
            then [(''password'', ''Password must be at least 6 characters'')]
          else []) @
     (if role d \<notin> set ALL_ROLES
      then [(''role'', ''`'' @ role d @ ''` is not a valid enum value for path `role`.'')]
      else []) @
     (if authProvider d \<notin> set [''local'', ''google'']
      then [(''authProvider'',
             ''`'' @ authProvider d @ ''` is not a valid enum value for path `authProvider`.'')]
      else [])"

subsection \<open>Mongoose: the calls the services make\<close>

text \<open>\<^verbatim>\<open>User.findOne({ googleId })\<close>.\<close>

definition User_findOne_googleId :: "string \<Rightarrow> world \<Rightarrow> IUser option \<times> world" where
  "User_findOne_googleId g =
     await (OpUserFindOneGoogleId g) (\<lambda>s. (find (\<lambda>u. googleId u = Some g) (users s), s))"

text \<open>\<^verbatim>\<open>User.findOne({ email })\<close>: the filter's value goes through the path's setters.\<close>

definition User_findOne_email :: "string \<Rightarrow> world \<Rightarrow> IUser option \<times> world" where
  "User_findOne_email e =
     await (OpUserFindOneEmail e) (\<lambda>s. (find (\<lambda>u. email u = email_setters e) (users s), s))"

text \<open>
  \<^verbatim>\<open>User.findById(id)\<close>: \<^verbatim>\<open>undefined\<close> finds nothing, a string that does not cast
  rejects with a \<^verbatim>\<open>CastError\<close>.
\<close>

definition User_findById :: "string option \<Rightarrow> world \<Rightarrow> (error + IUser option) \<times> world" where
  "User_findById i =
     await (OpUserFindById i)
       (\<lambda>s. (case i of
                None \<Rightarrow> Inr None
              | Some v \<Rightarrow>
                  if \<not> isObjectIdString v then Inl (CastError ''_id'' v)
                  else Inr (find (\<lambda>u. id_U u = toLowerCase v) (users s)), s))"

text \<open>Replacing the first document that satisfies a filter.\<close>

fun update_first :: "('a \<Rightarrow> bool) \<Rightarrow> 'a \<Rightarrow> 'a list \<Rightarrow> 'a list" where
  "update_first P y [] = []"
| "update_first P y (x # xs) = (if P x then y # xs else x # update_first P y xs)"

text \<open>
  \<^verbatim>\<open>User.findByIdAndUpdate(userId, { googleId, profilePicture }, { new: true })\<close>: the
  update sets \<^verbatim>\<open>googleId\<close>, sets \<^verbatim>\<open>profilePicture\<close> unless it is \<^verbatim>\<open>undefined\<close>
  (Mongoose strips undefined keys from an update), and the schema's timestamps set
  \<^verbatim>\<open>updatedAt\<close>. The unique index on \<^verbatim>\<open>googleId\<close> rejects a value another document
  holds. The result is the updated document, or \<^verbatim>\<open>null\<close>.
\<close>

definition User_findByIdAndUpdate :: "nat \<Rightarrow> string \<Rightarrow> string \<Rightarrow> string option \<Rightarrow> world \<Rightarrow>
    (error + IUser option) \<times> world" where
  "User_findByIdAndUpdate now i g pic =
     await (OpUserFindByIdAndUpdate i)
       (\<lambda>s. if \<not> isObjectIdString i then (Inl (CastError ''_id'' i), s)
            else (case find (\<lambda>u. id_U u = toLowerCase i) (users s) of
                    None \<Rightarrow> (Inr None, s)
                  | Some u \<Rightarrow>
                      if list_ex (\<lambda>v. googleId v = Some g \<and> id_U v \<noteq> id_U u) (users s)
                      then (Inl (MongoServerError 11000 ''googleId''), s)
                      else
                        (let u' = u\<lparr>googleId := Some g,
                                    profilePicture :=
                                      (case pic of None \<Rightarrow> profilePicture u | Some p \<Rightarrow> Some p),
                                    updatedAt := now\<rparr>
                         in (Inr (Some u'),
                             s\<lparr>users := update_first (\<lambda>v. id_U v = id_U u) u' (users s)\<rparr>))))"

text \<open>
  \<^verbatim>\<open>user.save()\<close> of a new document: validation, then (the pre-save hook returns at once
  for a document without password, the only kind saved here) the insert, which the unique
  indexes reject with code 11000; the timestamps are set to the time of the save.
\<close>

definition User_save :: "nat \<Rightarrow> IUser \<Rightarrow> world \<Rightarrow> (error + IUser) \<times> world" where
  "User_save now d =
     await (OpUserSave (id_U d))
       (\<lambda>s. if validate_User d \<noteq> [] then (Inl (ValidationError ''User'' (validate_User d)), s)
            else if list_ex (\<lambda>u. id_U u = id_U d) (users s)
              then (Inl (MongoServerError 11000 ''_id''), s)
            else if list_ex (\<lambda>u. email u = email d) (users s)
              then (Inl (MongoServerError 11000 ''email''), s)
            else if (case googleId d of None \<Rightarrow> False
                     | Some g \<Rightarrow> list_ex (\<lambda>u. googleId u = Some g) (users s))
              then (Inl (MongoServerError 11000 ''googleId''), s)
            else (let d' = d\<lparr>createdAt := now, updatedAt := now\<rparr>
                  in (Inr d', s\<lparr>users := users s @ [d']\<rparr>)))"

text \<open>\<^verbatim>\<open>Token.findOne({ token })\<close>, \<^verbatim>\<open>Token.deleteOne({ token })\<close> (the result is
  \<^verbatim>\<open>deletedCount\<close>) and \<^verbatim>\<open>Token.create({ token, userId, expiresAt })\<close>.\<close>

definition Token_findOne :: "token \<Rightarrow> world \<Rightarrow> IToken option \<times> world" where
  "Token_findOne t = await (OpTokenFindOne t) (\<lambda>s. (tokens s t, s))"

definition Token_deleteOne :: "token \<Rightarrow> world \<Rightarrow> nat \<times> world" where
  "Token_deleteOne t =
     await (OpTokenDeleteOne t)
       (\<lambda>s. (if tokens s t = None then 0 else 1, s\<lparr>tokens := (tokens s)(t := None)\<rparr>))"

definition Token_create :: "nat \<Rightarrow> token \<Rightarrow> string \<Rightarrow> nat \<Rightarrow> world \<Rightarrow> (error + IToken) \<times> world" where
  "Token_create now t uid expires =
     await (OpTokenCreate t)
       (\<lambda>s. if \<not> isObjectIdString uid
              then (Inl (ValidationError ''Token''
                           [(''userId'', ''Cast to ObjectId failed for value '' @ uid)]), s)
            else if tokens s t \<noteq> None then (Inl (MongoServerError 11000 ''token''), s)
            else (let d = \<lparr>token = t, userId_T = toLowerCase uid, expiresAt = expires,
                            createdAt_T = now\<rparr>
                  in (Inr d, s\<lparr>tokens := (tokens s)(t \<mapsto> d)\<rparr>)))"

section \<open>The services\<close>

subsection \<open>\<^verbatim>\<open>services/user.service.ts\<close>: the federated part\<close>

text \<open>
  \<^verbatim>\<open>types/google.types.ts\<close>, \<^verbatim>\<open>GoogleAuthData\<close>. The interface declares \<^verbatim>\<open>email\<close> and
  \<^verbatim>\<open>name\<close> as strings; the mobile controller fills them from optional fields of Google's
  payload under a non-null assertion, so at run time either may be \<^verbatim>\<open>undefined\<close>.
\<close>

record GoogleAuthData =
  googleId_G :: string
  email_G :: "string option"
  name_G :: "string option"
  profilePicture_G :: "string option"

definition getUserByGoogleId :: "string \<Rightarrow> world \<Rightarrow> IUser option \<times> world" where
  "getUserByGoogleId g w = User_findOne_googleId g w"

text \<open>\<^verbatim>\<open>email.toLowerCase()\<close> on \<^verbatim>\<open>undefined\<close> throws before any store call.\<close>

definition getUserByEmailInternal :: "string option \<Rightarrow> world \<Rightarrow> (error + IUser option) \<times> world" where
  "getUserByEmailInternal e w =
     (case e of
        None \<Rightarrow> (Inl (TypeError ''Cannot read properties of undefined''), w)
      | Some v \<Rightarrow> (case User_findOne_email (toLowerCase v) w of (u, w') \<Rightarrow> (Inr u, w')))"

text \<open>
  \<^verbatim>\<open>new User({ ...googleData, authProvider: 'google', role: 'user' })\<close> with the fresh
  \<^verbatim>\<open>_id\<close> the driver generated (a parameter), the setters applied. A missing name or
  email is written as the empty string: the \<^verbatim>\<open>required\<close> validator rejects both alike.
\<close>

definition new_User :: "string \<Rightarrow> GoogleAuthData \<Rightarrow> IUser" where
  "new_User oid g =
     \<lparr>id_U = oid,
      name = (case name_G g of None \<Rightarrow> [] | Some n \<Rightarrow> trim n),
      email = (case email_G g of None \<Rightarrow> [] | Some e \<Rightarrow> email_setters e),
      password = None, role = USER, googleId = Some (googleId_G g),
      profilePicture = profilePicture_G g, authProvider = ''google'',
      createdAt = 0, updatedAt = 0\<rparr>"

definition createGoogleUser :: "string \<Rightarrow> nat \<Rightarrow> GoogleAuthData \<Rightarrow> world \<Rightarrow> (error + IUser) \<times> world" where
  "createGoogleUser oid now g w =
     (case User_save now (new_User oid g) w of
        (Inr u, w') \<Rightarrow> (Inr u, w')
      | (Inl err, w') \<Rightarrow>
          (case err of
             MongoServerError code field \<Rightarrow>
               if code = 11000 then (Inl (ApiError CONFLICT ''Email already exists''), w')
               else (Inl err, w')
           | _ \<Rightarrow> (Inl err, w')))"

definition linkGoogleAccount :: "nat \<Rightarrow> string \<Rightarrow> string \<Rightarrow> string option \<Rightarrow> world \<Rightarrow>
    (error + IUser) \<times> world" where
  "linkGoogleAccount now uid g pic w =
     (case User_findByIdAndUpdate now uid g pic w of
        (Inl err, w') \<Rightarrow> (Inl err, w')
      | (Inr None, w') \<Rightarrow> (Inl (ApiError NOT_FOUND ''User not found''), w')
      | (Inr (Some u), w') \<Rightarrow> (Inr u, w'))"

subsection \<open>\<^verbatim>\<open>services/auth.service.ts\<close>\<close>

text \<open>
  \<^verbatim>\<open>expiresAt.setDate(expiresAt.getDate() + 7)\<close>: seven days later (in a time zone without
  a clock change in between).
\<close>

definition plus_7_days :: "nat \<Rightarrow> nat" where
  "plus_7_days now = now + 7 * 24 * 60 * 60 * 1000"

text \<open>
  \<^verbatim>\<open>comparePassword\<close> of the user model; \<^verbatim>\<open>bcrypt.compare\<close> is the parameter \<open>cmp\<close>
  (candidate, then digest).
\<close>

definition comparePassword :: "(string \<Rightarrow> string \<Rightarrow> bool) \<Rightarrow> IUser \<Rightarrow> string \<Rightarrow> bool" where
  "comparePassword cmp u candidate =
     (case password u of
        None \<Rightarrow> False
      | Some digest \<Rightarrow> if digest = [] then False else cmp candidate digest)"

definition authenticateUser :: "(string \<Rightarrow> string \<Rightarrow> bool) \<Rightarrow> jwt_config \<Rightarrow> nat \<Rightarrow> string \<Rightarrow> string \<Rightarrow>
    world \<Rightarrow> (error + TokenPair) \<times> world" where
  "authenticateUser cmp cfg now em pw w =
     (case User_findOne_email (toLowerCase em) w of
        (None, w1) \<Rightarrow> (Inl (ApiError UNAUTHORIZED ''Invalid email or password''), w1)
      | (Some u, w1) \<Rightarrow>
          if \<not> comparePassword cmp u pw
          then (Inl (ApiError UNAUTHORIZED ''Invalid email or password''), w1)
          else
            (let pair = generateTokenPair cfg now (id_U u) (email u) (Some (role u))
             in (case Token_create now (refreshToken pair) (id_U u) (plus_7_days now) w1 of
                   (Inl err, w2) \<Rightarrow> (Inl err, w2)
                 | (Inr d, w2) \<Rightarrow> (Inr pair, w2))))"

definition refreshAccessToken :: "jwt_config \<Rightarrow> nat \<Rightarrow> token \<Rightarrow> world \<Rightarrow> (error + token) \<times> world" where
  "refreshAccessToken cfg now rt w =
     (case verifyRefreshToken cfg now rt of
        Inl err \<Rightarrow> (Inl err, w)
      | Inr payload \<Rightarrow>
          (case Token_findOne rt w of
             (None, w1) \<Rightarrow>
               (Inl (ApiError UNAUTHORIZED ''Invalid or expired refresh token''), w1)
           | (Some tokenDoc, w1) \<Rightarrow>
               if expiresAt tokenDoc < now
               then (case Token_deleteOne rt w1 of
                       (n, w2) \<Rightarrow> (Inl (ApiError UNAUTHORIZED ''Refresh token expired''), w2))
               else
                 (case User_findById (userId payload) w1 of
                    (Inl err, w2) \<Rightarrow> (Inl err, w2)
                  | (Inr None, w2) \<Rightarrow>
                      (case Token_deleteOne rt w2 of
                         (n, w3) \<Rightarrow> (Inl (ApiError UNAUTHORIZED ''User not found''), w3))
                  | (Inr (Some u), w2) \<Rightarrow>
                      (let pair = generateTokenPair cfg now (id_U u) (email u) (role_J payload)
                       in (case Token_deleteOne rt w2 of
                             (n, w3) \<Rightarrow>
                               (case Token_create now (refreshToken pair) (id_U u)
                                       (plus_7_days now) w3 of
                                  (Inl err, w4) \<Rightarrow> (Inl err, w4)
                                | (Inr d, w4) \<Rightarrow> (Inr (accessToken pair), w4)))))))"

text \<open>
  \<^verbatim>\<open>revokeRefreshToken\<close>: the verification runs inside a \<^verbatim>\<open>try\<close> whose \<^verbatim>\<open>catch\<close> only
  logs, so both of its outcomes continue with the delete.
\<close>

definition revokeRefreshToken :: "jwt_config \<Rightarrow> nat \<Rightarrow> token \<Rightarrow> world \<Rightarrow> (error + unit) \<times> world" where
  "revokeRefreshToken cfg now rt w =
     (case verifyRefreshToken cfg now rt of
        Inl err \<Rightarrow>
          (case Token_deleteOne rt w of
             (n, w1) \<Rightarrow>
               if n = 0 then (Inl (ApiError NOT_FOUND ''Refresh token not found''), w1)
               else (Inr (), w1))
      | Inr payload \<Rightarrow>
          (case Token_deleteOne rt w of
             (n, w1) \<Rightarrow>
               if n = 0 then (Inl (ApiError NOT_FOUND ''Refresh token not found''), w1)
               else (Inr (), w1)))"

definition validateRefreshToken :: "nat \<Rightarrow> token \<Rightarrow> world \<Rightarrow> bool \<times> world" where
  "validateRefreshToken now rt w =
     (case Token_findOne rt w of
        (None, w1) \<Rightarrow> (False, w1)
      | (Some tokenDoc, w1) \<Rightarrow> (now < expiresAt tokenDoc, w1))"

text \<open>
  \<^verbatim>\<open>authenticateGoogleUser\<close>: the body of the \<^verbatim>\<open>try\<close> first, then the function with its
  \<^verbatim>\<open>catch\<close>, which replaces whatever was thrown.
\<close>

definition authenticateGoogleUser_try :: "string \<Rightarrow> nat \<Rightarrow> GoogleAuthData \<Rightarrow> world \<Rightarrow>
    (error + IUser) \<times> world" where
  "authenticateGoogleUser_try oid now g w =
     (case getUserByGoogleId (googleId_G g) w of
        (Some u, w1) \<Rightarrow> (Inr u, w1)
      | (None, w1) \<Rightarrow>
          (case getUserByEmailInternal (email_G g) w1 of
             (Inl err, w2) \<Rightarrow> (Inl err, w2)
           | (Inr (Some u), w2) \<Rightarrow>
               linkGoogleAccount now (id_U u) (googleId_G g) (profilePicture_G g) w2
           | (Inr None, w2) \<Rightarrow> createGoogleUser oid now g w2))"

definition authenticateGoogleUser :: "string \<Rightarrow> nat \<Rightarrow> GoogleAuthData \<Rightarrow> world \<Rightarrow>
    (error + IUser) \<times> world" where
  "authenticateGoogleUser oid now g w =
     (case authenticateGoogleUser_try oid now g w of
        (Inr u, w') \<Rightarrow> (Inr u, w')
      | (Inl err, w') \<Rightarrow>
          (Inl (ApiError INTERNAL_SERVER_ERROR ''Failed to authenticate with Google''), w'))"

text \<open>\<^verbatim>\<open>saveRefreshToken\<close> of \<^verbatim>\<open>services/token.service.ts\<close>.\<close>

definition saveRefreshToken :: "nat \<Rightarrow> token \<Rightarrow> string \<Rightarrow> nat \<Rightarrow> world \<Rightarrow> (error + unit) \<times> world" where
  "saveRefreshToken now t uid expires w =
     (case Token_create now t uid expires w of
        (Inl err, w') \<Rightarrow> (Inl err, w')
      | (Inr d, w') \<Rightarrow> (Inr (), w'))"

section \<open>The Google strategy and the controllers\<close>

text \<open>
  The profile \<^verbatim>\<open>passport-google-oauth20\<close> hands to the verify callback: each email with
  its \<^verbatim>\<open>verified\<close> flag (an absent array is the empty list), the photos' URLs.
\<close>

record GoogleProfile =
  id_P :: string
  displayName :: string
  emails :: "(string \<times> bool) list"
  photos :: "string list"

text \<open>
  \<^verbatim>\<open>config/passport.config.ts\<close>, the Google strategy's verify callback. Its \<^verbatim>\<open>catch\<close>
  hands the error on as it is.
\<close>

definition google_strategy_callback :: "string \<Rightarrow> nat \<Rightarrow> GoogleProfile \<Rightarrow> world \<Rightarrow>
    IUser done_result \<times> world" where
  "google_strategy_callback oid now profile w =
     (case emails profile of
        [] \<Rightarrow> (DoneError (Error ''Email not verified by Google''), w)
      | (v, verified) # rest \<Rightarrow>
          if \<not> verified then (DoneError (Error ''Email not verified by Google''), w)
          else
            (let googleData =
                   \<lparr>googleId_G = id_P profile, email_G = Some v,
                    name_G = Some (displayName profile),
                    profilePicture_G = (case photos profile of [] \<Rightarrow> None | p # ps \<Rightarrow> Some p)\<rparr>
             in (case authenticateGoogleUser oid now googleData w of
                   (Inl err, w') \<Rightarrow> (DoneError err, w')
                 | (Inr u, w') \<Rightarrow> (DoneUser u, w'))))"

text \<open>
  A JSON value of a response body (a key whose value is \<^verbatim>\<open>undefined\<close> is not written),
  and the response: its status and its body.
\<close>

datatype json =
    JString string
  | JToken token
  | JNumber nat
  | JBool bool
  | JNull
  | JObject "(string \<times> json) list"

record response =
  status :: nat
  body :: json

text \<open>\<^verbatim>\<open>err.message\<close>; for the errors of Mongoose and the driver a short form of it.\<close>

fun message :: "error \<Rightarrow> string" where
  "message (ApiError code m) = m"
| "message (Error m) = m"
| "message (TypeError m) = m"
| "message (ValidationError model errs) =
     model @ '' validation failed: '' @ join '', '' (map (\<lambda>(path, m). path @ '': '' @ m) errs)"
| "message (MongoServerError code field) = ''E11000 duplicate key error index: '' @ field"
| "message (CastError path v) = ''Cast to ObjectId failed for value '' @ v @ '' at path '' @ path"

text \<open>
  \<^verbatim>\<open>middlewares/errorHandler.ts\<close>: what the client gets for an error a handler passed on.
\<close>

definition capitalize :: "string \<Rightarrow> string" where
  "capitalize v =
     (case v of
        [] \<Rightarrow> []
      | c # cs \<Rightarrow>
          (case map_of (zip ''abcdefghijklmnopqrstuvwxyz'' ''ABCDEFGHIJKLMNOPQRSTUVWXYZ'') c of
             Some d \<Rightarrow> d | None \<Rightarrow> c) # cs)"

fun status_and_message :: "error \<Rightarrow> nat \<times> string" where
  "status_and_message (ApiError code m) = (code, m)"
| "status_and_message (ValidationError model errs) = (BAD_REQUEST, join '', '' (map snd errs))"
| "status_and_message (MongoServerError code field) =
     (if code = 11000 then (CONFLICT, capitalize field @ '' already exists'')
      else (INTERNAL_SERVER_ERROR, message (MongoServerError code field)))"
| "status_and_message (CastError path v) = (BAD_REQUEST, ''Invalid '' @ path @ '': '' @ v)"
| "status_and_message (Error m) =
     (INTERNAL_SERVER_ERROR, if m = [] then ''Internal server error'' else m)"
| "status_and_message (TypeError m) =
     (INTERNAL_SERVER_ERROR, if m = [] then ''Internal server error'' else m)"

definition errorHandler :: "error \<Rightarrow> response" where
  "errorHandler err =
     (case status_and_message err of
        (statusCode, m) \<Rightarrow>
          \<lparr>status = statusCode,
           body = JObject [(''error'',
                    JObject [(''statusCode'', JNumber statusCode), (''message'', JString m)])]\<rparr>)"

text \<open>
  \<^verbatim>\<open>routes/auth.route.ts\<close>, \<^verbatim>\<open>GET /google/callback\<close>: the middleware
  \<^verbatim>\<open>passport.authenticate('google', {session: false, failureRedirect: ...})\<close> in front
  of the controller, from the point where Google's profile has arrived. It is used
  without a callback of its own, so \<^verbatim>\<open>passport\<close> passes an error of the strategy to
  \<^verbatim>\<open>next\<close>, where \<^verbatim>\<open>errorHandler\<close> (registered last in \<^verbatim>\<open>index.ts\<close>) answers; a
  failure is redirected; on success the user is put on the request and the controller
  \<^verbatim>\<open>googleCallback\<close> runs.
\<close>

datatype google_callback_step =
    ErrorAnswer response
  | FailureRedirect string
  | CallController IUser

definition passport_authenticate_google :: "string \<Rightarrow> nat \<Rightarrow> GoogleProfile \<Rightarrow> world \<Rightarrow>
    google_callback_step \<times> world" where
  "passport_authenticate_google oid now profile w =
     (case google_strategy_callback oid now profile w of
        (DoneError err, w') \<Rightarrow> (ErrorAnswer (errorHandler err), w')
      | (DoneFalse, w') \<Rightarrow> (FailureRedirect ''/login?error=google_auth_failed'', w')
      | (DoneUser u, w') \<Rightarrow> (CallController u, w'))"


definition logoutUser :: "jwt_config \<Rightarrow> nat \<Rightarrow> token \<Rightarrow> world \<Rightarrow> (error + response) \<times> world" where
  "logoutUser cfg now rt w =
     (case revokeRefreshToken cfg now rt w of
        (Inl err, w') \<Rightarrow> (Inl err, w')
      | (Inr u, w') \<Rightarrow>
          (Inr \<lparr>status = OK,
                body = JObject [(''message'', JString ''Logged out successfully'')]\<rparr>, w'))"

text \<open>
  The payload of a verified Google ID token, as far as the controller reads it; every
  field but \<^verbatim>\<open>sub\<close> is optional.
\<close>

record TokenPayload =
  sub :: string
  email_I :: "string option"
  email_verified :: "bool option"
  name_I :: "string option"
  picture :: "string option"

text \<open>
  \<^verbatim>\<open>googleMobileAuth\<close>. \<open>verifyIdToken\<close> stands for Google's client:
  \<^verbatim>\<open>client.verifyIdToken(...)\<close> followed by \<^verbatim>\<open>getPayload()\<close>, which throws or gives the
  payload or \<^verbatim>\<open>undefined\<close>. The part after the verification check is
  \<open>googleMobileAuth_session\<close>; everything thrown inside the \<^verbatim>\<open>try\<close> ends in the same
  401 answer.
\<close>

definition invalid_id_token :: "error \<Rightarrow> response" where
  "invalid_id_token err =
     \<lparr>status = UNAUTHORIZED,
      body = JObject [(''success'', JBool False), (''message'', JString ''Invalid Google ID token''),
               (''error'', JString (message err))]\<rparr>"

definition user_json :: "IUser \<Rightarrow> json" where
  "user_json u =
     JObject ([(''id'', JString (id_U u)), (''name'', JString (name u)),
        (''email'', JString (email u)), (''role'', JString (role u))] @
       (case profilePicture u of None \<Rightarrow> [] | Some p \<Rightarrow> [(''profilePicture'', JString p)]) @
       [(''authProvider'', JString (authProvider u))])"

definition googleMobileAuth_session :: "jwt_config \<Rightarrow> nat \<Rightarrow> IUser \<Rightarrow> world \<Rightarrow> response \<times> world" where
  "googleMobileAuth_session cfg now u w =
     (let pair = generateTokenPair cfg now (id_U u) (email u) (Some (role u))
      in (case verifyRefreshToken cfg now (refreshToken pair) of
            Inl err \<Rightarrow> (invalid_id_token err, w)
          | Inr decoded \<Rightarrow>
              (case exp decoded of
                 None \<Rightarrow>
                   (invalid_id_token
                      (ValidationError ''Token'' [(''expiresAt'', ''Cast to date failed'')]), w)
               | Some e \<Rightarrow>
                   (case saveRefreshToken now (refreshToken pair) (id_U u) (e * 1000) w of
                      (Inl err, w') \<Rightarrow> (invalid_id_token err, w')
                    | (Inr x, w') \<Rightarrow>
                        (\<lparr>status = OK,
                          body = JObject [(''success'', JBool True),
                            (''message'', JString ''Google authentication successful''),
                            (''data'', JObject [(''user'', user_json u),
                               (''tokens'', JObject [(''accessToken'', JToken (accessToken pair)),
                                  (''refreshToken'', JToken (refreshToken pair))])])]\<rparr>, w')))))"

definition googleMobileAuth :: "(string \<Rightarrow> error + TokenPayload option) \<Rightarrow> jwt_config \<Rightarrow> string \<Rightarrow> nat \<Rightarrow>
    string option \<Rightarrow> world \<Rightarrow> response \<times> world" where
  "googleMobileAuth verifyIdToken cfg oid now idToken w =
     (if falsy idToken
      then (\<lparr>status = BAD_REQUEST,
             body = JObject [(''success'', JBool False),
                      (''message'', JString ''Google ID token is required'')]\<rparr>, w)
      else
        (case verifyIdToken (case idToken of None \<Rightarrow> [] | Some v \<Rightarrow> v) of
           Inl err \<Rightarrow> (invalid_id_token err, w)
         | Inr payload \<Rightarrow>
             (case payload of
                None \<Rightarrow>
                  (\<lparr>status = UNAUTHORIZED,
                    body = JObject [(''success'', JBool False),
                             (''message'', JString ''Email not verified by Google'')]\<rparr>, w)
              | Some p \<Rightarrow>
                  if email_verified p \<noteq> Some True
                  then (\<lparr>status = UNAUTHORIZED,
                         body = JObject [(''success'', JBool False),
                                  (''message'', JString ''Email not verified by Google'')]\<rparr>, w)
                  else
                    (let googleData =
                           \<lparr>googleId_G = sub p, email_G = email_I p,
                            name_G = (if falsy (name_I p) then email_I p else name_I p),
                            profilePicture_G = picture p\<rparr>
                     in (case authenticateGoogleUser oid now googleData w of
                           (Inl err, w') \<Rightarrow> (invalid_id_token err, w')
                         | (Inr u, w') \<Rightarrow> googleMobileAuth_session cfg now u w')))))"

section \<open>Example inputs\<close>

text \<open>The configuration with the defaults of \<^verbatim>\<open>config/token.config.ts\<close>.\<close>

definition example_cfg :: jwt_config where
  "example_cfg =
     \<lparr>accessSecret = ''your-access-secret-key-change-in-production'',
      refreshSecret = ''your-refresh-secret-key-change-in-production'',
      accessExpiration = 900, refreshExpiration = 604800,
      issuer = ''boilerplate'', audience = ''boilerplate-users''\<rparr>"

definition example_id :: string where
  "example_id = ''674442a1f8e9c12345678901''"

definition other_id :: string where
  "other_id = ''674442a1f8e9c12345678902''"

text \<open>A request to \<^verbatim>\<open>GET /users/:id\<close> with a bearer token.\<close>

definition bearer_request :: "token \<Rightarrow> string \<Rightarrow> request" where
  "bearer_request t pid = \<lparr>authorization = Some (''Bearer'', t), params_id = pid, user = None\<rparr>"

text \<open>
  Requests as \<^verbatim>\<open>authenticate\<close> leaves them: a user asking for the user's own profile
  and for another one, and an administrator asking for another one.
\<close>

definition user_identity :: req_user where
  "user_identity =
     \<lparr>id_R = example_id, email_R = ''a@x.com'', name_R = [], role_R = USER,
      permissions = getPermissionsForRole USER\<rparr>"

definition own_request :: request where
  "own_request = \<lparr>authorization = None, params_id = example_id, user = Some user_identity\<rparr>"

definition foreign_request :: request where
  "foreign_request = \<lparr>authorization = None, params_id = other_id, user = Some user_identity\<rparr>"

definition admin_identity :: req_user where
  "admin_identity =
     \<lparr>id_R = example_id, email_R = ''a@x.com'', name_R = [], role_R = ADMIN,
      permissions = getPermissionsForRole ADMIN\<rparr>"

definition admin_foreign_request :: request where
  "admin_foreign_request =
     \<lparr>authorization = None, params_id = other_id, user = Some admin_identity\<rparr>"

text \<open>
  Access tokens signed with this server's secret: one whose payload has no role, and one
  with all three fields for each of the roles \<^verbatim>\<open>admin\<close>, \<^verbatim>\<open>user\<close>, a role the registry
  does not have, and a role named like a member of \<^verbatim>\<open>Object.prototype\<close>.
\<close>

definition roleless_token :: token where
  "roleless_token = generateAccessToken example_cfg 1000000 example_id ''a@x.com'' None"

definition admin_token :: token where
  "admin_token = generateAccessToken example_cfg 1000000 example_id ''a@x.com'' (Some ADMIN)"

definition user_token :: token where
  "user_token = generateAccessToken example_cfg 1000000 example_id ''a@x.com'' (Some USER)"

definition guest_token :: token where
  "guest_token = generateAccessToken example_cfg 1000000 example_id ''a@x.com'' (Some ''guest'')"

definition constructor_token :: token where
  "constructor_token =
     generateAccessToken example_cfg 1000000 example_id ''a@x.com'' (Some ''constructor'')"

text \<open>A world that starts from a store, with no other request and an empty trace.\<close>

definition world_of :: "store \<Rightarrow> world" where
  "world_of s = \<lparr>db = s, sched = [], trace = []\<rparr>"

text \<open>
  A local account, a refresh token it was issued at second 1000 with the ledger record of
  it, and a ledger that also holds a record under a string that is no token at all.
\<close>

definition alice :: IUser where
  "alice =
     \<lparr>id_U = example_id, name = ''Alice'', email = ''a@x.com'',
      password = Some ''$2b$10$digest-of-secret1'', role = USER, googleId = None,
      profilePicture = None, authProvider = ''local'', createdAt = 500000, updatedAt = 500000\<rparr>"

definition alice_token :: token where
  "alice_token = generateRefreshToken example_cfg 1000000 example_id ''a@x.com'' (Some USER)"

definition alice_record :: IToken where
  "alice_record =
     \<lparr>token = alice_token, userId_T = example_id, expiresAt = plus_7_days 1000000,
      createdAt_T = 1000000\<rparr>"

definition alice_store :: store where
  "alice_store =
     \<lparr>users = [alice],
      tokens = [alice_token \<mapsto> alice_record,
                Garbage ''not-a-jwt'' \<mapsto> alice_record\<lparr>token := Garbage ''not-a-jwt''\<rparr>]\<rparr>"

text \<open>The stand-in for \<^verbatim>\<open>bcrypt.compare\<close> in the examples.\<close>

definition example_compare :: "string \<Rightarrow> string \<Rightarrow> bool" where
  "example_compare candidate digest = (digest = ''$2b$10$digest-of-'' @ candidate)"

text \<open>An account that was created by Google sign-in and has no password.\<close>

definition bob :: IUser where
  "bob =
     \<lparr>id_U = other_id, name = ''Bob'', email = ''b@y.com'', password = None, role = USER,
      googleId = Some ''g-bob'', profilePicture = None, authProvider = ''google'',
      createdAt = 600000, updatedAt = 600000\<rparr>"

definition two_user_store :: store where
  "two_user_store = \<lparr>users = [alice, bob], tokens = Map.empty\<rparr>"

text \<open>
  Google identities: one whose first email is not verified, as the web strategy and as
  the mobile controller get it, and the stand-in for Google's client in the examples.
\<close>

definition unverified_profile :: GoogleProfile where
  "unverified_profile =
     \<lparr>id_P = ''g-alice'', displayName = ''Alice'', emails = [(''a@x.com'', False)],
      photos = []\<rparr>"

definition unverified_payload :: TokenPayload where
  "unverified_payload =
     \<lparr>sub = ''g-alice'', email_I = Some ''a@x.com'', email_verified = Some False,
      name_I = Some ''Alice'', picture = None\<rparr>"

definition example_verifyIdToken :: "string \<Rightarrow> error + TokenPayload option" where
  "example_verifyIdToken idToken =
     (if idToken = ''id-token-of-alice'' then Inr (Some unverified_payload)
      else Inl (Error ''Wrong number of segments in token''))"

text \<open>
  A verified identity nobody in the store has, in a world where another request
  registers its email after this request's two lookups and before its save.
\<close>

definition carol_identity :: GoogleAuthData where
  "carol_identity =
     \<lparr>googleId_G = ''g-carol'', email_G = Some ''a@x.com'', name_G = Some ''Carol'',
      profilePicture_G = None\<rparr>"

definition racing_world :: world where
  "racing_world =
     \<lparr>db = \<lparr>users = [], tokens = Map.empty\<rparr>,
      sched = [\<lambda>s. s, \<lambda>s. s, \<lambda>s. s\<lparr>users := users s @ [alice]\<rparr>],
      trace = []\<rparr>"

text \<open>
  A verified identity with the email of the local account of the example and the Google id
  the other account already carries.
\<close>

definition crossed_identity :: GoogleAuthData where
  "crossed_identity =
     \<lparr>googleId_G = ''g-bob'', email_G = Some ''A@x.com'', name_G = Some ''Alice'',
      profilePicture_G = None\<rparr>"

text \<open>A verified identity with that email and a Google id nobody carries, with a picture.\<close>

definition alice_identity :: GoogleAuthData where
  "alice_identity =
     \<lparr>googleId_G = ''g-alice'', email_G = Some ''A@x.com'', name_G = Some ''Alice'',
      profilePicture_G = Some ''https://lh3.googleusercontent.com/a/alice''\<rparr>"

definition alice_linked :: IUser where
  "alice_linked =
     alice\<lparr>googleId := Some ''g-alice'',
           profilePicture := Some ''https://lh3.googleusercontent.com/a/alice'',
           updatedAt := 2000000\<rparr>"

section \<open>Properties\<close>

lemmas httpStatus_defs =
  OK_def CREATED_def BAD_REQUEST_def UNAUTHORIZED_def FORBIDDEN_def NOT_FOUND_def
  CONFLICT_def INTERNAL_SERVER_ERROR_def

lemmas Permission_defs = MANAGE_USERS_def GET_USERS_def GET_PROFILE_def UPDATE_OWN_PROFILE_def

lemmas Role_defs = ADMIN_def USER_def THERAPIST_def

subsection \<open>The gates\<close>

lemma getPermissionsForRole_rows:
  "getPermissionsForRole r =
     (if r \<in> set Object_prototype_members then InheritedMember r
      else PermissionList
             (if r = ''admin''
              then [''manageUsers'', ''getUsers'', ''getProfile'', ''updateOwnProfile'']
              else if r = ''user'' \<or> r = ''therapist''
              then [''getProfile'', ''updateOwnProfile'']
              else []))"
  by (simp add: getPermissionsForRole_def RolePermissions_def Role_defs Permission_defs
      Object_prototype_members_def)

lemma ALL_ROLES_not_inherited: "r \<in> set ALL_ROLES \<Longrightarrow> r \<notin> set Object_prototype_members"
  by (auto simp: ALL_ROLES_def Role_defs Object_prototype_members_def)

lemma falsy_iff: "falsy v \<longleftrightarrow> (v = None \<or> v = Some [])"
  by (simp add: falsy_def split: option.splits)

lemmas example_gate_defs =
  users_router_get_id_def authenticate_def JwtStrategy_authenticate_def
  fromAuthHeaderAsBearerToken_def bearer_request_def toLowerCase_def lower_char_def
  generateAccessToken_def jwt_sign_def example_cfg_def jwt_strategy_callback_def falsy_def
  get_user_route_def validate_userIdParam_def requireAnyPermission_def
  permissions_includes_def example_id_def
  other_id_def getPermissionsForRole_def RolePermissions_def Object_prototype_members_def
  Role_defs Permission_defs httpStatus_defs

lemma get_user_route_PermissionList:
  assumes "user req = Some u" and "params_id req \<noteq> []"
    and "permissions u = PermissionList ps"
    and "GET_PROFILE \<in> set ps \<or> GET_USERS \<in> set ps"
  shows "get_user_route req =
           (if id_R u \<noteq> params_id req \<and> GET_USERS \<notin> set ps
            then Inl (ApiError 403 ''You can only view your own profile'')
            else Inr req)"
  using assms
  by (auto simp: get_user_route_def validate_userIdParam_def requireAnyPermission_def
      permissions_includes_def FORBIDDEN_def)

text \<open>
  C9. On \<^verbatim>\<open>GET /users/:id\<close>, for an authenticated request, that is, a request that
  carries an identity with a role of the registry and the permissions the registry gives
  that role (what \<^verbatim>\<open>authenticate\<close> attaches for a token this server issued: every signing
  site takes the role from a stored account, whose schema admits the registry's roles
  only, or from a verified refresh token): when the identity's id differs from the path's
  id and the permissions lack \<^verbatim>\<open>getUsers\<close>, the request fails with 403 Forbidden; when
  the ids are equal or \<^verbatim>\<open>getUsers\<close> is present, it reaches the handler.
\<close>

theorem get_user_route_ownership_gate:
  assumes "user req = Some u" and "params_id req \<noteq> []"
    and "role_R u \<in> set ALL_ROLES" and "permissions u = getPermissionsForRole (role_R u)"
  shows "\<exists>ps. permissions u = PermissionList ps
       \<and> (id_R u \<noteq> params_id req \<and> GET_USERS \<notin> set ps
           \<longrightarrow> get_user_route req = Inl (ApiError 403 ''You can only view your own profile''))
       \<and> (id_R u = params_id req \<or> GET_USERS \<in> set ps \<longrightarrow> get_user_route req = Inr req)"
proof -
  from assms(3) have "role_R u \<notin> set Object_prototype_members"
    by (rule ALL_ROLES_not_inherited)
  with assms(3,4) obtain ps where ps: "permissions u = PermissionList ps"
    and holds: "GET_PROFILE \<in> set ps"
    by (auto simp: getPermissionsForRole_rows ALL_ROLES_def Role_defs Permission_defs)
  from get_user_route_PermissionList[OF assms(1,2) ps] holds
  have "get_user_route req =
          (if id_R u \<noteq> params_id req \<and> GET_USERS \<notin> set ps
           then Inl (ApiError 403 ''You can only view your own profile'')
           else Inr req)"
    by simp
  with ps show ?thesis by auto
qed

theorem get_user_route_ownership_gate_witness:
  "get_user_route own_request = Inr own_request
   \<and> get_user_route foreign_request = Inl (ApiError 403 ''You can only view your own profile'')
   \<and> get_user_route admin_foreign_request = Inr admin_foreign_request"
proof -
  have perms: "permissions user_identity = PermissionList [''getProfile'', ''updateOwnProfile'']"
    "permissions admin_identity =
       PermissionList [''manageUsers'', ''getUsers'', ''getProfile'', ''updateOwnProfile'']"
    by (simp_all add: user_identity_def admin_identity_def getPermissionsForRole_rows Role_defs
        Object_prototype_members_def)
  have hyps: "user own_request = Some user_identity" "params_id own_request \<noteq> []"
    "user foreign_request = Some user_identity" "params_id foreign_request \<noteq> []"
    "user admin_foreign_request = Some admin_identity" "params_id admin_foreign_request \<noteq> []"
    "role_R user_identity \<in> set ALL_ROLES" "role_R admin_identity \<in> set ALL_ROLES"
    "permissions user_identity = getPermissionsForRole (role_R user_identity)"
    "permissions admin_identity = getPermissionsForRole (role_R admin_identity)"
    by (simp_all add: own_request_def foreign_request_def admin_foreign_request_def
        user_identity_def admin_identity_def example_id_def other_id_def ALL_ROLES_def)
  have ids: "id_R user_identity = params_id own_request"
    "id_R user_identity \<noteq> params_id foreign_request"
    "id_R admin_identity \<noteq> params_id admin_foreign_request"
    by (simp_all add: own_request_def foreign_request_def admin_foreign_request_def
        user_identity_def admin_identity_def example_id_def other_id_def)
  note own = get_user_route_ownership_gate[OF hyps(1) hyps(2) hyps(7) hyps(9)]
  note foreign = get_user_route_ownership_gate[OF hyps(3) hyps(4) hyps(7) hyps(9)]
  note admin = get_user_route_ownership_gate[OF hyps(5) hyps(6) hyps(8) hyps(10)]
  from own foreign admin ids show ?thesis
    unfolding perms by (auto simp: GET_USERS_def)
qed

lemma authenticate_missing_field:
  assumes "fromAuthHeaderAsBearerToken req = Some t"
    and "jwt_verify t (accessSecret cfg) (issuer cfg) (audience cfg) now = Inr p"
    and "falsy (userId p) \<or> falsy (email_J p) \<or> falsy (role_J p)"
  shows "authenticate cfg now req = Inl (ApiError 401 ''Unauthorized'')"
  using assms
  by (auto simp: authenticate_def JwtStrategy_authenticate_def jwt_strategy_callback_def
      UNAUTHORIZED_def)

lemma authenticate_all_fields:
  assumes "fromAuthHeaderAsBearerToken req = Some t"
    and "jwt_verify t (accessSecret cfg) (issuer cfg) (audience cfg) now = Inr p"
    and "userId p = Some u" and "u \<noteq> []" and "email_J p = Some e" and "e \<noteq> []"
    and "role_J p = Some r" and "r \<noteq> []"
  shows "authenticate cfg now req =
           Inr (req\<lparr>user := Some \<lparr>id_R = u, email_R = e, name_R = [], role_R = r,
                                   permissions = getPermissionsForRole r\<rparr>\<rparr>)"
  using assms
  by (simp add: authenticate_def JwtStrategy_authenticate_def jwt_strategy_callback_def
      falsy_def)

lemma authenticate_passed:
  assumes "authenticate cfg now req = Inr req'"
  shows "\<exists>t' p' u'. fromAuthHeaderAsBearerToken req = Some t'
           \<and> jwt_verify t' (accessSecret cfg) (issuer cfg) (audience cfg) now = Inr p'
           \<and> req' = req\<lparr>user := Some u'\<rparr>
           \<and> userId p' = Some (id_R u') \<and> email_J p' = Some (email_R u')
           \<and> role_J p' = Some (role_R u')
           \<and> id_R u' \<noteq> [] \<and> email_R u' \<noteq> [] \<and> role_R u' \<noteq> [] \<and> name_R u' = []
           \<and> permissions u' = getPermissionsForRole (role_R u')"
  using assms
  by (auto simp: authenticate_def JwtStrategy_authenticate_def jwt_strategy_callback_def
      falsy_iff
      split: option.splits sum.splits done_result.splits passport_result.splits if_splits)

text \<open>
  C10, as the code has it. For a request whose bearer token verifies as an access token
  with payload \<open>p\<close>: when \<^verbatim>\<open>userId\<close>, \<^verbatim>\<open>email\<close> or \<^verbatim>\<open>role\<close> is absent or empty,
  \<^verbatim>\<open>authenticate\<close> fails with 401 and the request goes no further; otherwise, for a role
  that is not the name of a member of \<^verbatim>\<open>Object.prototype\<close>, the identity it attaches has
  five fields: the three of the payload, a \<^verbatim>\<open>name\<close> that is always the empty string, and
  the permissions of the registry's row for the role, which are \<^verbatim>\<open>manageUsers\<close>,
  \<^verbatim>\<open>getUsers\<close>, \<^verbatim>\<open>getProfile\<close>, \<^verbatim>\<open>updateOwnProfile\<close> for \<^verbatim>\<open>admin\<close>, \<^verbatim>\<open>getProfile\<close>,
  \<^verbatim>\<open>updateOwnProfile\<close> for \<^verbatim>\<open>user\<close> and for \<^verbatim>\<open>therapist\<close>, and the empty list for any
  other role. Every request that passes the gate carries an identity of that form.
\<close>

theorem authenticate_attaches_well_formed_identity:
  "(fromAuthHeaderAsBearerToken req = Some t
      \<and> jwt_verify t (accessSecret cfg) (issuer cfg) (audience cfg) now = Inr p
      \<and> (falsy (userId p) \<or> falsy (email_J p) \<or> falsy (role_J p))
     \<longrightarrow> authenticate cfg now req = Inl (ApiError 401 ''Unauthorized''))
 \<and> (fromAuthHeaderAsBearerToken req = Some t
      \<and> jwt_verify t (accessSecret cfg) (issuer cfg) (audience cfg) now = Inr p
      \<and> userId p = Some u \<and> u \<noteq> [] \<and> email_J p = Some e \<and> e \<noteq> []
      \<and> role_J p = Some r \<and> r \<noteq> [] \<and> r \<notin> set Object_prototype_members
     \<longrightarrow> authenticate cfg now req =
           Inr (req\<lparr>user := Some \<lparr>id_R = u, email_R = e, name_R = [], role_R = r,
                  permissions = PermissionList
                    (if r = ''admin''
                     then [''manageUsers'', ''getUsers'', ''getProfile'', ''updateOwnProfile'']
                     else if r = ''user'' \<or> r = ''therapist''
                     then [''getProfile'', ''updateOwnProfile'']
                     else [])\<rparr>\<rparr>))
 \<and> (authenticate cfg now req = Inr req'
     \<longrightarrow> (\<exists>t' p' u'. fromAuthHeaderAsBearerToken req = Some t'
            \<and> jwt_verify t' (accessSecret cfg) (issuer cfg) (audience cfg) now = Inr p'
            \<and> req' = req\<lparr>user := Some u'\<rparr>
            \<and> userId p' = Some (id_R u') \<and> email_J p' = Some (email_R u')
            \<and> role_J p' = Some (role_R u')
            \<and> id_R u' \<noteq> [] \<and> email_R u' \<noteq> [] \<and> role_R u' \<noteq> [] \<and> name_R u' = []
            \<and> (role_R u' \<notin> set Object_prototype_members
                \<longrightarrow> permissions u' = PermissionList
                      (if role_R u' = ''admin''
                       then [''manageUsers'', ''getUsers'', ''getProfile'', ''updateOwnProfile'']
                       else if role_R u' = ''user'' \<or> role_R u' = ''therapist''
                       then [''getProfile'', ''updateOwnProfile'']
                       else []))))"
proof (intro conjI impI)
  assume "fromAuthHeaderAsBearerToken req = Some t
      \<and> jwt_verify t (accessSecret cfg) (issuer cfg) (audience cfg) now = Inr p
      \<and> (falsy (userId p) \<or> falsy (email_J p) \<or> falsy (role_J p))"
  then show "authenticate cfg now req = Inl (ApiError 401 ''Unauthorized'')"
    using authenticate_missing_field[of req t cfg now p] by blast
next
  assume h: "fromAuthHeaderAsBearerToken req = Some t
      \<and> jwt_verify t (accessSecret cfg) (issuer cfg) (audience cfg) now = Inr p
      \<and> userId p = Some u \<and> u \<noteq> [] \<and> email_J p = Some e \<and> e \<noteq> []
      \<and> role_J p = Some r \<and> r \<noteq> [] \<and> r \<notin> set Object_prototype_members"
  then have "authenticate cfg now req =
           Inr (req\<lparr>user := Some \<lparr>id_R = u, email_R = e, name_R = [], role_R = r,
                                   permissions = getPermissionsForRole r\<rparr>\<rparr>)"
    using authenticate_all_fields[of req t cfg now p u e r] by blast
  moreover from h have "r \<notin> set Object_prototype_members" by blast
  ultimately show "authenticate cfg now req =
           Inr (req\<lparr>user := Some \<lparr>id_R = u, email_R = e, name_R = [], role_R = r,
                  permissions = PermissionList
                    (if r = ''admin''
                     then [''manageUsers'', ''getUsers'', ''getProfile'', ''updateOwnProfile'']
                     else if r = ''user'' \<or> r = ''therapist''
                     then [''getProfile'', ''updateOwnProfile'']
                     else [])\<rparr>\<rparr>)"
    by (simp only: getPermissionsForRole_rows if_False)
next
  assume "authenticate cfg now req = Inr req'"
  from authenticate_passed[OF this] obtain t' p' u' where
    facts: "fromAuthHeaderAsBearerToken req = Some t'"
      "jwt_verify t' (accessSecret cfg) (issuer cfg) (audience cfg) now = Inr p'"
      "req' = req\<lparr>user := Some u'\<rparr>"
      "userId p' = Some (id_R u')" "email_J p' = Some (email_R u')"
      "role_J p' = Some (role_R u')"
      "id_R u' \<noteq> []" "email_R u' \<noteq> []" "role_R u' \<noteq> []" "name_R u' = []"
    and perms: "permissions u' = getPermissionsForRole (role_R u')"
    by blast
  have "role_R u' \<notin> set Object_prototype_members
          \<longrightarrow> permissions u' = PermissionList
                (if role_R u' = ''admin''
                 then [''manageUsers'', ''getUsers'', ''getProfile'', ''updateOwnProfile'']
                 else if role_R u' = ''user'' \<or> role_R u' = ''therapist''
                 then [''getProfile'', ''updateOwnProfile'']
                 else [])"
    unfolding perms by (simp add: getPermissionsForRole_rows)
  with facts show "\<exists>t' p' u'. fromAuthHeaderAsBearerToken req = Some t'
            \<and> jwt_verify t' (accessSecret cfg) (issuer cfg) (audience cfg) now = Inr p'
            \<and> req' = req\<lparr>user := Some u'\<rparr>
            \<and> userId p' = Some (id_R u') \<and> email_J p' = Some (email_R u')
            \<and> role_J p' = Some (role_R u')
            \<and> id_R u' \<noteq> [] \<and> email_R u' \<noteq> [] \<and> role_R u' \<noteq> [] \<and> name_R u' = []
            \<and> (role_R u' \<notin> set Object_prototype_members
                \<longrightarrow> permissions u' = PermissionList
                      (if role_R u' = ''admin''
                       then [''manageUsers'', ''getUsers'', ''getProfile'', ''updateOwnProfile'']
                       else if role_R u' = ''user'' \<or> role_R u' = ''therapist''
                       then [''getProfile'', ''updateOwnProfile'']
                       else []))"
    by blast
qed

theorem authenticate_attaches_well_formed_identity_witness:
  "authenticate example_cfg 1000000 (bearer_request roleless_token example_id) =
     Inl (ApiError 401 ''Unauthorized'')
   \<and> authenticate example_cfg 1000000 (bearer_request user_token example_id) =
     Inr ((bearer_request user_token example_id)
            \<lparr>user := Some \<lparr>id_R = example_id, email_R = ''a@x.com'', name_R = [],
                            role_R = ''user'',
                            permissions = PermissionList [''getProfile'', ''updateOwnProfile'']\<rparr>\<rparr>)
   \<and> authenticate example_cfg 1000000 (bearer_request guest_token example_id) =
     Inr ((bearer_request guest_token example_id)
            \<lparr>user := Some \<lparr>id_R = example_id, email_R = ''a@x.com'', name_R = [],
                            role_R = ''guest'', permissions = PermissionList []\<rparr>\<rparr>)"
proof -
  have bearer: "fromAuthHeaderAsBearerToken (bearer_request roleless_token example_id) =
      Some roleless_token"
    "fromAuthHeaderAsBearerToken (bearer_request user_token example_id) = Some user_token"
    "fromAuthHeaderAsBearerToken (bearer_request guest_token example_id) = Some guest_token"
    by (simp_all add: fromAuthHeaderAsBearerToken_def bearer_request_def toLowerCase_def
        lower_char_def)
  have verify: "jwt_verify roleless_token (accessSecret example_cfg) (issuer example_cfg)
        (audience example_cfg) 1000000 =
      Inr \<lparr>userId = Some example_id, email_J = Some ''a@x.com'', role_J = None,
           iat = Some 1000, exp = Some 1900, nbf = None,
           iss = Some ''boilerplate'', aud = Some ''boilerplate-users''\<rparr>"
    "jwt_verify user_token (accessSecret example_cfg) (issuer example_cfg)
        (audience example_cfg) 1000000 =
      Inr \<lparr>userId = Some example_id, email_J = Some ''a@x.com'', role_J = Some ''user'',
           iat = Some 1000, exp = Some 1900, nbf = None,
           iss = Some ''boilerplate'', aud = Some ''boilerplate-users''\<rparr>"
    "jwt_verify guest_token (accessSecret example_cfg) (issuer example_cfg)
        (audience example_cfg) 1000000 =
      Inr \<lparr>userId = Some example_id, email_J = Some ''a@x.com'', role_J = Some ''guest'',
           iat = Some 1000, exp = Some 1900, nbf = None,
           iss = Some ''boilerplate'', aud = Some ''boilerplate-users''\<rparr>"
    by (simp_all add: roleless_token_def user_token_def guest_token_def generateAccessToken_def
        jwt_sign_def example_cfg_def USER_def)
  have side: "example_id \<noteq> []" "''user'' \<notin> set Object_prototype_members"
    "''guest'' \<notin> set Object_prototype_members"
    by (simp_all add: example_id_def Object_prototype_members_def)
  from authenticate_attaches_well_formed_identity
      [where req = "bearer_request roleless_token example_id" and t = roleless_token
         and cfg = example_cfg and now = 1000000 and u = example_id and e = "''a@x.com''"
         and r = "''user''" and req' = "bearer_request roleless_token example_id"
         and p = "\<lparr>userId = Some example_id, email_J = Some ''a@x.com'', role_J = None,
                    iat = Some 1000, exp = Some 1900, nbf = None,
                    iss = Some ''boilerplate'', aud = Some ''boilerplate-users''\<rparr>"]
    authenticate_attaches_well_formed_identity
      [where req = "bearer_request user_token example_id" and t = user_token
         and cfg = example_cfg and now = 1000000 and u = example_id and e = "''a@x.com''"
         and r = "''user''"
         and req' = "(bearer_request user_token example_id)
            \<lparr>user := Some \<lparr>id_R = example_id, email_R = ''a@x.com'', name_R = [],
                            role_R = ''user'',
                            permissions = PermissionList [''getProfile'', ''updateOwnProfile'']\<rparr>\<rparr>"
         and p = "\<lparr>userId = Some example_id, email_J = Some ''a@x.com'',
                    role_J = Some ''user'',
                    iat = Some 1000, exp = Some 1900, nbf = None,
                    iss = Some ''boilerplate'', aud = Some ''boilerplate-users''\<rparr>"]
    authenticate_attaches_well_formed_identity
      [where req = "bearer_request guest_token example_id" and t = guest_token
         and cfg = example_cfg and now = 1000000 and u = example_id and e = "''a@x.com''"
         and r = "''guest''"
         and req' = "(bearer_request guest_token example_id)
            \<lparr>user := Some \<lparr>id_R = example_id, email_R = ''a@x.com'', name_R = [],
                            role_R = ''guest'', permissions = PermissionList []\<rparr>\<rparr>"
         and p = "\<lparr>userId = Some example_id, email_J = Some ''a@x.com'',
                    role_J = Some ''guest'',
                    iat = Some 1000, exp = Some 1900, nbf = None,
                    iss = Some ''boilerplate'', aud = Some ''boilerplate-users''\<rparr>"]
  show ?thesis
    using bearer verify side by (simp add: falsy_def)
qed

text \<open>
  The claim as it was stated fails. The identity attached for an administrator's token has
  a fifth field, the \<^verbatim>\<open>name\<close> the strategy sets to the empty string. And for a signed
  token whose role is \<^verbatim>\<open>constructor\<close> the attached \<^verbatim>\<open>permissions\<close> are no set of
  permissions: the lookup in the registry finds the member \<^verbatim>\<open>constructor\<close> that every
  object inherits, and the permission gate of \<^verbatim>\<open>GET /users/:id\<close> throws a \<^verbatim>\<open>TypeError\<close>
  on it, which the error handler answers with 500.
\<close>

theorem authenticate_attaches_well_formed_identity_counterexample:
  "authenticate example_cfg 1000000 (bearer_request admin_token example_id) =
     Inr ((bearer_request admin_token example_id)
            \<lparr>user := Some \<lparr>id_R = example_id, email_R = ''a@x.com'', name_R = [],
                            role_R = ''admin'',
                            permissions = PermissionList [''manageUsers'', ''getUsers'',
                                            ''getProfile'', ''updateOwnProfile'']\<rparr>\<rparr>)
   \<and> authenticate example_cfg 1000000 (bearer_request constructor_token example_id) =
     Inr ((bearer_request constructor_token example_id)
            \<lparr>user := Some \<lparr>id_R = example_id, email_R = ''a@x.com'', name_R = [],
                            role_R = ''constructor'',
                            permissions = InheritedMember ''constructor''\<rparr>\<rparr>)
   \<and> users_router_get_id example_cfg 1000000 (bearer_request constructor_token example_id) =
     Inl (TypeError ''req.user.permissions.includes is not a function'')
   \<and> status (errorHandler (TypeError ''req.user.permissions.includes is not a function'')) = 500"
  by (simp add: admin_token_def constructor_token_def example_gate_defs errorHandler_def)

subsection \<open>Credential authentication and logout\<close>

lemmas string_defs = toLowerCase_def lower_char_def trim_def is_space_def email_setters_def

lemma email_query_examples:
  "email_setters (toLowerCase ''Nobody@X.com'') = ''nobody@x.com''"
  "email_setters (toLowerCase ''B@Y.com'') = ''b@y.com''"
  "email_setters (toLowerCase ''A@x.com'') = ''a@x.com''"
  by (simp_all add: string_defs)

lemma Token_create_not_ApiError:
  "Token_create now t uid expires w = (Inl (ApiError code m), w') \<Longrightarrow> False"
  by (simp add: Token_create_def await_def Let_def split: prod.splits if_splits)

text \<open>
  C7. \<^verbatim>\<open>authenticateUser\<close> fails with the one error
  \<^verbatim>\<open>ApiError(401, 'Invalid email or password')\<close> in each of the three cases: the lookup
  by the lower-cased email finds no account, the account found has no password digest, or
  \<^verbatim>\<open>bcrypt.compare\<close> rejects the password against the digest. The lookup runs on the
  store as the \<^verbatim>\<open>await\<close> finds it (\<open>interleave w\<close>; for a request that runs alone that is
  the store of \<open>w\<close>). It is the only \<^verbatim>\<open>ApiError\<close> the function fails with.
\<close>

theorem authenticateUser_generic_failure:
  "(find (\<lambda>u. email u = email_setters (toLowerCase em)) (users (db (interleave w))) = None
      \<longrightarrow> fst (authenticateUser cmp cfg now em pw w) =
            Inl (ApiError 401 ''Invalid email or password''))
 \<and> (find (\<lambda>u. email u = email_setters (toLowerCase em)) (users (db (interleave w))) = Some u
      \<and> password u = None
      \<longrightarrow> fst (authenticateUser cmp cfg now em pw w) =
            Inl (ApiError 401 ''Invalid email or password''))
 \<and> (find (\<lambda>u. email u = email_setters (toLowerCase em)) (users (db (interleave w))) = Some u
      \<and> password u = Some digest \<and> \<not> cmp pw digest
      \<longrightarrow> fst (authenticateUser cmp cfg now em pw w) =
            Inl (ApiError 401 ''Invalid email or password''))
 \<and> (fst (authenticateUser cmp cfg now em pw w) = Inl (ApiError code m)
      \<longrightarrow> code = 401 \<and> m = ''Invalid email or password'')"
  by (auto simp: authenticateUser_def User_findOne_email_def await_def Let_def
      comparePassword_def UNAUTHORIZED_def
      split: prod.splits option.splits if_splits sum.splits
      dest: Token_create_not_ApiError)

theorem authenticateUser_generic_failure_witness:
  "fst (authenticateUser example_compare example_cfg 2000000 ''Nobody@X.com'' ''secret1''
          (world_of two_user_store)) = Inl (ApiError 401 ''Invalid email or password'')
   \<and> fst (authenticateUser example_compare example_cfg 2000000 ''B@Y.com'' ''secret1''
          (world_of two_user_store)) = Inl (ApiError 401 ''Invalid email or password'')
   \<and> fst (authenticateUser example_compare example_cfg 2000000 ''A@x.com'' ''wrong''
          (world_of two_user_store)) = Inl (ApiError 401 ''Invalid email or password'')"
proof -
  have lookups:
    "find (\<lambda>u. email u = email_setters (toLowerCase ''Nobody@X.com''))
       (users (db (interleave (world_of two_user_store)))) = None"
    "find (\<lambda>u. email u = email_setters (toLowerCase ''B@Y.com''))
       (users (db (interleave (world_of two_user_store)))) = Some bob"
    "find (\<lambda>u. email u = email_setters (toLowerCase ''A@x.com''))
       (users (db (interleave (world_of two_user_store)))) = Some alice"
    by (simp_all add: email_query_examples world_of_def interleave_def two_user_store_def
        alice_def bob_def)
  have digests: "password bob = None" "password alice = Some ''$2b$10$digest-of-secret1''"
    "\<not> example_compare ''wrong'' ''$2b$10$digest-of-secret1''"
    by (simp_all add: alice_def bob_def example_compare_def)
  show ?thesis
    using authenticateUser_generic_failure
        [where em = "''Nobody@X.com''" and w = "world_of two_user_store" and u = bob
           and digest = "[]" and code = 401 and m = "[]"
           and cmp = example_compare and cfg = example_cfg and now = 2000000
           and pw = "''secret1''"]
      authenticateUser_generic_failure
        [where em = "''B@Y.com''" and w = "world_of two_user_store" and u = bob
           and digest = "[]" and code = 401 and m = "[]"
           and cmp = example_compare and cfg = example_cfg and now = 2000000
           and pw = "''secret1''"]
      authenticateUser_generic_failure
        [where em = "''A@x.com''" and w = "world_of two_user_store" and u = alice
           and digest = "''$2b$10$digest-of-secret1''" and code = 401 and m = "[]"
           and cmp = example_compare and cfg = example_cfg and now = 2000000
           and pw = "''wrong''"]
      lookups digests
    by blast
qed

text \<open>
  C8. \<^verbatim>\<open>revokeRefreshToken\<close> never fails with the error of the signature check: its
  result is decided by the ledger alone. It succeeds when the ledger (as the delete finds
  it) has a record for the token, also when \<^verbatim>\<open>verifyRefreshToken\<close> rejects the token as
  expired or malformed, and it fails with \<^verbatim>\<open>ApiError(404, 'Refresh token not found')\<close>
  exactly when \<^verbatim>\<open>deleteOne\<close> reports zero deleted records. Afterwards the ledger has no
  record for the token.
\<close>

theorem revokeRefreshToken_outcome:
  "fst (revokeRefreshToken cfg now rt w) =
     (if tokens (db (interleave w)) rt = None
      then Inl (ApiError 404 ''Refresh token not found'') else Inr ())
 \<and> snd (revokeRefreshToken cfg now rt w) = snd (Token_deleteOne rt w)
 \<and> (fst (revokeRefreshToken cfg now rt w) = Inl (ApiError 404 ''Refresh token not found'')
      \<longleftrightarrow> fst (Token_deleteOne rt w) = 0)
 \<and> tokens (db (snd (revokeRefreshToken cfg now rt w))) rt = None
 \<and> (verifyRefreshToken cfg now rt = Inl err \<and> tokens (db (interleave w)) rt \<noteq> None
      \<longrightarrow> fst (revokeRefreshToken cfg now rt w) = Inr ())"
  by (simp add: revokeRefreshToken_def Token_deleteOne_def await_def Let_def NOT_FOUND_def
      split: prod.splits sum.splits)

theorem revokeRefreshToken_outcome_witness:
  "verifyRefreshToken example_cfg 700000000000 alice_token =
     Inl (ApiError 401 ''Refresh token expired'')
   \<and> fst (revokeRefreshToken example_cfg 700000000000 alice_token (world_of alice_store)) = Inr ()
   \<and> verifyRefreshToken example_cfg 2000000 (Garbage ''not-a-jwt'') =
     Inl (ApiError 401 ''Invalid refresh token'')
   \<and> fst (revokeRefreshToken example_cfg 2000000 (Garbage ''not-a-jwt'') (world_of alice_store))
       = Inr ()
   \<and> fst (revokeRefreshToken example_cfg 2000000 (Garbage ''unknown'') (world_of alice_store))
       = Inl (ApiError 404 ''Refresh token not found'')"
  using revokeRefreshToken_outcome
      [where cfg = example_cfg and now = 700000000000 and rt = alice_token
         and w = "world_of alice_store" and err = "ApiError 401 ''Refresh token expired''"]
    revokeRefreshToken_outcome
      [where cfg = example_cfg and now = 2000000 and rt = "Garbage ''not-a-jwt''"
         and w = "world_of alice_store" and err = "ApiError 401 ''Invalid refresh token''"]
    revokeRefreshToken_outcome
      [where cfg = example_cfg and now = 2000000 and rt = "Garbage ''unknown''"
         and w = "world_of alice_store" and err = "ApiError 401 ''Invalid refresh token''"]
  by (simp add: world_of_def interleave_def alice_store_def alice_token_def
      verifyRefreshToken_def generateRefreshToken_def jwt_sign_def example_cfg_def
      UNAUTHORIZED_def)

subsection \<open>Refresh rotation\<close>

lemmas store_call_defs =
  await_def interleave_def Let_def Token_findOne_def Token_deleteOne_def Token_create_def
  User_findById_def User_findOne_email_def User_findOne_googleId_def
  User_findByIdAndUpdate_def User_save_def

lemma interleave_alone: "sched w = [] \<Longrightarrow> interleave w = w"
  by (simp add: interleave_def)

lemma interleave_fields:
  "trace (interleave w) = trace w" "sched (interleave w) = tl (sched w)"
  by (simp_all add: interleave_def split: list.splits)

lemma await_run:
  assumes "await op f w = (r, w')"
  shows "trace w' = trace w @ [(op, db w')]" and "sched w' = tl (sched w)"
    and "db w' = snd (f (db (interleave w)))" and "r = fst (f (db (interleave w)))"
  using assms
  by (auto simp: await_def Let_def interleave_fields split: prod.splits)

lemma refreshAccessToken_steps:
  assumes "refreshAccessToken cfg now rt w = (Inr a, w')"
  shows "\<exists>payload d w1 u w2 n w3 r.
           verifyRefreshToken cfg now rt = Inr payload
         \<and> Token_findOne rt w = (Some d, w1) \<and> \<not> expiresAt d < now
         \<and> User_findById (userId payload) w1 = (Inr (Some u), w2)
         \<and> Token_deleteOne rt w2 = (n, w3)
         \<and> Token_create now (generateRefreshToken cfg now (id_U u) (email u) (role_J payload))
              (id_U u) (plus_7_days now) w3 = (Inr r, w')
         \<and> a = generateAccessToken cfg now (id_U u) (email u) (role_J payload)"
  using assms
  by (auto simp: refreshAccessToken_def Let_def generateTokenPair_def
      split: sum.splits prod.splits option.splits if_splits)

lemma isObjectIdString_examples:
  "isObjectIdString example_id" "isObjectIdString other_id"
  by (simp_all add: isObjectIdString_def example_id_def other_id_def is_hex_def)

lemma toLowerCase_examples:
  "toLowerCase example_id = example_id" "toLowerCase other_id = other_id"
  by (simp_all add: example_id_def other_id_def toLowerCase_def lower_char_def)

lemmas example_token_defs =
  alice_token_def generateTokenPair_def generateRefreshToken_def generateAccessToken_def
  jwt_sign_def verifyRefreshToken_def example_cfg_def

text \<open>
  A refresh with the token of the example at a later second, evaluated: the result, the
  store and the trace.
\<close>

lemma alice_refresh_later:
  "refreshAccessToken example_cfg 2000000 alice_token (world_of alice_store) =
     (Inr (generateAccessToken example_cfg 2000000 example_id ''a@x.com'' (Some USER)),
      \<lparr>db = alice_store\<lparr>tokens :=
              ((tokens alice_store)(alice_token := None))
                (generateRefreshToken example_cfg 2000000 example_id ''a@x.com'' (Some USER) \<mapsto>
                   \<lparr>token = generateRefreshToken example_cfg 2000000 example_id ''a@x.com''
                              (Some USER),
                    userId_T = example_id, expiresAt = plus_7_days 2000000,
                    createdAt_T = 2000000\<rparr>)\<rparr>,
       sched = [],
       trace =
         [(OpTokenFindOne alice_token, alice_store),
          (OpUserFindById (Some example_id), alice_store),
          (OpTokenDeleteOne alice_token,
           alice_store\<lparr>tokens := (tokens alice_store)(alice_token := None)\<rparr>),
          (OpTokenCreate (generateRefreshToken example_cfg 2000000 example_id ''a@x.com''
                            (Some USER)),
           alice_store\<lparr>tokens :=
              ((tokens alice_store)(alice_token := None))
                (generateRefreshToken example_cfg 2000000 example_id ''a@x.com'' (Some USER) \<mapsto>
                   \<lparr>token = generateRefreshToken example_cfg 2000000 example_id ''a@x.com''
                              (Some USER),
                    userId_T = example_id, expiresAt = plus_7_days 2000000,
                    createdAt_T = 2000000\<rparr>)\<rparr>)]\<rparr>)"
  by (simp add: refreshAccessToken_def world_of_def store_call_defs alice_store_def alice_def
      isObjectIdString_examples toLowerCase_examples example_token_defs plus_7_days_def
      alice_record_def)





text \<open>
  C6. In every successful run of \<^verbatim>\<open>refreshAccessToken\<close> the store calls are, in this
  order, the lookup of the old record, the lookup of the user, the delete of the old
  record and the insert of the new one, and nothing after it. The store the delete leaves
  (\<open>s2\<close>) has no record for the old token; the new record is in the store the insert
  leaves (\<open>s3\<close>). In a request that runs alone, \<open>s2\<close> is the initial store without the
  old record and holds no record under the new token either, the stores before it hold
  none under the new token unless that is the old token's own string, and \<open>s3\<close> is
  \<open>s2\<close> with the new record: the new record exists in no state in which the old one is
  still present.
\<close>

theorem refreshAccessToken_delete_before_insert:
  assumes "refreshAccessToken cfg now rt w = (Inr a, w')"
  shows "\<exists>v s0 s1 s2 s3 new d.
           trace w' = trace w @
             [(OpTokenFindOne rt, s0), (OpUserFindById v, s1),
              (OpTokenDeleteOne rt, s2), (OpTokenCreate new, s3)]
         \<and> tokens s2 rt = None
         \<and> tokens s3 new = Some d
         \<and> db w' = s3
         \<and> (sched w = [] \<longrightarrow>
               s0 = db w \<and> s1 = db w
             \<and> s2 = (db w)\<lparr>tokens := (tokens (db w))(rt := None)\<rparr>
             \<and> tokens s2 new = None
             \<and> (new \<noteq> rt \<longrightarrow> tokens s0 new = None \<and> tokens s1 new = None)
             \<and> s3 = s2\<lparr>tokens := (tokens s2)(new \<mapsto> d)\<rparr>)"
proof -
  from refreshAccessToken_steps[OF assms] obtain payload d0 w1 u w2 n w3 r where
    verify: "verifyRefreshToken cfg now rt = Inr payload" and
    find: "Token_findOne rt w = (Some d0, w1)" and
    user: "User_findById (userId payload) w1 = (Inr (Some u), w2)" and
    del: "Token_deleteOne rt w2 = (n, w3)" and
    create: "Token_create now (generateRefreshToken cfg now (id_U u) (email u) (role_J payload))
              (id_U u) (plus_7_days now) w3 = (Inr r, w')"
    by blast
  let ?new = "generateRefreshToken cfg now (id_U u) (email u) (role_J payload)"
  note f = await_run[OF find[unfolded Token_findOne_def]]
  note g = await_run[OF user[unfolded User_findById_def]]
  note h = await_run[OF del[unfolded Token_deleteOne_def]]
  note c = await_run[OF create[unfolded Token_create_def]]
  have tr: "trace w' = trace w @
      [(OpTokenFindOne rt, db w1), (OpUserFindById (userId payload), db w2),
       (OpTokenDeleteOne rt, db w3), (OpTokenCreate ?new, db w')]"
    using f(1) g(1) h(1) c(1) by simp
  have gone: "tokens (db w3) rt = None"
    using h(3) by simp
  have there: "tokens (db w') ?new = Some r"
    using c(3) c(4) by (auto simp: Let_def split: if_splits)
  have alone: "db w1 = db w \<and> db w2 = db w
      \<and> db w3 = (db w)\<lparr>tokens := (tokens (db w))(rt := None)\<rparr>
      \<and> tokens (db w3) ?new = None
      \<and> (?new \<noteq> rt \<longrightarrow> tokens (db w1) ?new = None \<and> tokens (db w2) ?new = None)
      \<and> db w' = (db w3)\<lparr>tokens := (tokens (db w3))(?new \<mapsto> r)\<rparr>" if "sched w = []"
  proof -
    have s: "sched w1 = []" "sched w2 = []" "sched w3 = []"
      using that f(2) g(2) h(2) by simp_all
    have i: "interleave w = w" "interleave w1 = w1" "interleave w2 = w2" "interleave w3 = w3"
      using that s by (simp_all add: interleave_alone)
    have 1: "db w1 = db w" using f(3) i by simp
    have 2: "db w2 = db w1" using g(3) i by simp
    have 3: "db w3 = (db w2)\<lparr>tokens := (tokens (db w2))(rt := None)\<rparr>" using h(3) i by simp
    have 4: "tokens (db w3) ?new = None
        \<and> db w' = (db w3)\<lparr>tokens := (tokens (db w3))(?new \<mapsto> r)\<rparr>"
      using c(3) c(4) i by (auto simp: Let_def split: if_splits)
    show ?thesis using 1 2 3 4 by (auto split: if_splits)
  qed
  show ?thesis
    using tr gone there alone by blast
qed

theorem refreshAccessToken_delete_before_insert_witness:
  "map fst (trace (snd (refreshAccessToken example_cfg 2000000 alice_token
                          (world_of alice_store)))) =
     [OpTokenFindOne alice_token, OpUserFindById (Some example_id),
      OpTokenDeleteOne alice_token,
      OpTokenCreate (generateRefreshToken example_cfg 2000000 example_id ''a@x.com''
                       (Some USER))]
   \<and> tokens (snd (trace (snd (refreshAccessToken example_cfg 2000000 alice_token
                                 (world_of alice_store))) ! 2)) alice_token = None
   \<and> tokens (snd (trace (snd (refreshAccessToken example_cfg 2000000 alice_token
                                 (world_of alice_store))) ! 2))
        (generateRefreshToken example_cfg 2000000 example_id ''a@x.com'' (Some USER)) = None"
proof -
  have start: "trace (world_of alice_store) = []" "sched (world_of alice_store) = []"
    "db (world_of alice_store) = alice_store"
    by (simp_all add: world_of_def)
  have differ:
    "generateRefreshToken example_cfg 2000000 example_id ''a@x.com'' (Some USER) \<noteq> alice_token"
    by (simp add: example_token_defs)
  from refreshAccessToken_delete_before_insert[OF alice_refresh_later]
  show ?thesis
    by (auto simp: alice_refresh_later start differ)
qed

subsection \<open>The federated identity reconciler\<close>

lemmas reconciler_defs =
  authenticateGoogleUser_def authenticateGoogleUser_try_def getUserByGoogleId_def
  getUserByEmailInternal_def linkGoogleAccount_def createGoogleUser_def new_User_def

lemma unverified_email_no_store_call:
  "((emails profile = [] \<or> (\<exists>v rest. emails profile = (v, False) # rest))
     \<longrightarrow> google_strategy_callback oid now profile w =
           (DoneError (Error ''Email not verified by Google''), w))
 \<and> (\<not> falsy idToken \<and> idToken = Some raw \<and> verifyIdToken raw = Inr payload
      \<and> (payload = None \<or> (\<exists>p. payload = Some p \<and> email_verified p \<noteq> Some True))
     \<longrightarrow> googleMobileAuth verifyIdToken cfg oid now idToken w =
           (\<lparr>status = 401,
             body = JObject [(''success'', JBool False),
                      (''message'', JString ''Email not verified by Google'')]\<rparr>, w))"
  by (auto simp: google_strategy_callback_def googleMobileAuth_def UNAUTHORIZED_def
      split: list.splits)

text \<open>
  C3 does not hold of the code on the web path. An identity whose email Google has not
  verified is refused before any store call on both paths: the world is returned as it
  was, so the trace has no lookup and no account is created or modified. But only the
  mobile controller refuses it with the 401 of \<^verbatim>\<open>UnverifiedEmail\<close>. The web strategy
  hands \<^verbatim>\<open>done\<close> a plain \<^verbatim>\<open>Error('Email not verified by Google')\<close>, which \<^verbatim>\<open>passport\<close>
  passes to \<^verbatim>\<open>next\<close> and the error handler answers with 500, where the route's
  documentation has 401 for a failed authentication.
\<close>

theorem unverified_email_web_answer:
  "passport_authenticate_google other_id 2000000 unverified_profile (world_of alice_store) =
     (ErrorAnswer
        \<lparr>status = 500,
         body = JObject [(''error'', JObject [(''statusCode'', JNumber 500),
                  (''message'', JString ''Email not verified by Google'')])]\<rparr>,
      world_of alice_store)
   \<and> googleMobileAuth example_verifyIdToken example_cfg other_id 2000000
        (Some ''id-token-of-alice'') (world_of alice_store) =
     (\<lparr>status = 401,
       body = JObject [(''success'', JBool False),
                (''message'', JString ''Email not verified by Google'')]\<rparr>,
      world_of alice_store)"
  by (simp add: passport_authenticate_google_def google_strategy_callback_def
      googleMobileAuth_def unverified_profile_def unverified_payload_def
      example_verifyIdToken_def falsy_def errorHandler_def httpStatus_defs)

lemma find_update_first_googleId:
  assumes "find (\<lambda>v. id_U v = k) xs = Some u0" and "googleId u' = Some g"
    and "\<not> list_ex (\<lambda>v. googleId v = Some g \<and> id_U v \<noteq> id_U u0) xs"
  shows "find (\<lambda>v. googleId v = Some g) (update_first (\<lambda>v. id_U v = id_U u0) u' xs) = Some u'"
  using assms
proof (induction xs)
  case Nil
  then show ?case by simp
next
  case (Cons x xs)
  show ?case
  proof (cases "id_U x = k")
    case True
    with Cons.prems show ?thesis by simp
  next
    case False
    with Cons.prems have tail: "find (\<lambda>v. id_U v = k) xs = Some u0" by simp
    then have "id_U u0 = k" by (auto simp: find_Some_iff)
    with False Cons.prems have "googleId x \<noteq> Some g" "id_U x \<noteq> id_U u0" by auto
    moreover have "find (\<lambda>v. googleId v = Some g) (update_first (\<lambda>v. id_U v = id_U u0) u' xs)
        = Some u'"
      using Cons.IH[OF tail Cons.prems(2)] Cons.prems(3) by simp
    ultimately show ?thesis by simp
  qed
qed

lemma find_append_last: "\<not> list_ex P xs \<Longrightarrow> P y \<Longrightarrow> find P (xs @ [y]) = Some y"
  by (induction xs) auto

lemma User_findByIdAndUpdate_result:
  assumes "User_findByIdAndUpdate now i g pic w = (Inr (Some a), w')"
  shows "find (\<lambda>u. googleId u = Some g) (users (db w')) = Some a"
  using assms
  by (auto simp: User_findByIdAndUpdate_def await_def Let_def find_update_first_googleId
      split: if_splits option.splits)

lemma User_save_result:
  assumes "User_save now d w = (Inr a, w')" and "googleId d = Some g"
  shows "find (\<lambda>u. googleId u = Some g) (users (db w')) = Some a"
  using assms
  by (auto simp: User_save_def await_def Let_def find_append_last split: if_splits)

lemma User_findOne_googleId_result:
  assumes "User_findOne_googleId g w = (Some a, w')"
  shows "find (\<lambda>u. googleId u = Some g) (users (db w')) = Some a"
  using assms
  by (auto simp: User_findOne_googleId_def await_def Let_def)

lemma authenticateGoogleUser_result:
  assumes "authenticateGoogleUser oid now g w = (Inr a, w')"
  shows "find (\<lambda>u. googleId u = Some (googleId_G g)) (users (db w')) = Some a"
proof -
  from assms have run: "authenticateGoogleUser_try oid now g w = (Inr a, w')"
    by (auto simp: authenticateGoogleUser_def split: prod.splits sum.splits)
  obtain r1 w1 where first: "User_findOne_googleId (googleId_G g) w = (r1, w1)"
    by (cases "User_findOne_googleId (googleId_G g) w")
  show ?thesis
  proof (cases r1)
    case (Some u)
    with run first have "a = u" "w' = w1"
      by (simp_all add: authenticateGoogleUser_try_def getUserByGoogleId_def)
    with first Some show ?thesis
      by (simp add: User_findOne_googleId_result)
  next
    case None
    obtain r2 w2 where second: "getUserByEmailInternal (email_G g) w1 = (r2, w2)"
      by (cases "getUserByEmailInternal (email_G g) w1")
    from run first None second have rest:
      "(case r2 of Inl err \<Rightarrow> (Inl err, w2)
        | Inr None \<Rightarrow> createGoogleUser oid now g w2
        | Inr (Some u) \<Rightarrow>
            linkGoogleAccount now (id_U u) (googleId_G g) (profilePicture_G g) w2)
       = (Inr a, w')"
      by (simp add: authenticateGoogleUser_try_def getUserByGoogleId_def)
    show ?thesis
    proof (cases r2)
      case (Inl err)
      with rest show ?thesis by simp
    next
      case (Inr found)
      show ?thesis
      proof (cases found)
        case None
        with rest Inr have "createGoogleUser oid now g w2 = (Inr a, w')" by simp
        then have "User_save now (new_User oid g) w2 = (Inr a, w')"
          by (auto simp: createGoogleUser_def split: prod.splits sum.splits error.splits
              if_splits)
        then show ?thesis
          by (rule User_save_result) (simp add: new_User_def)
      next
        case (Some u)
        with rest Inr have
          "linkGoogleAccount now (id_U u) (googleId_G g) (profilePicture_G g) w2 = (Inr a, w')"
          by simp
        then have "User_findByIdAndUpdate now (id_U u) (googleId_G g) (profilePicture_G g) w2
            = (Inr (Some a), w')"
          by (auto simp: linkGoogleAccount_def split: prod.splits sum.splits option.splits)
        then show ?thesis
          by (rule User_findByIdAndUpdate_result)
      qed
    qed
  qed
qed

lemma alice_email_examples:
  "toLowerCase ''A@x.com'' = ''a@x.com''" "email_setters ''a@x.com'' = ''a@x.com''"
  by (simp_all add: string_defs)

text \<open>The example store satisfies what the linking theorem asks of a store.\<close>

lemma two_user_store_facts:
  "sched (world_of two_user_store) = []"
  "alice \<in> set (users (db (world_of two_user_store)))"
  "googleId alice = None"
  "email alice = email_setters ''A@x.com''"
  "\<not> list_ex (\<lambda>u. googleId u = Some ''g-alice'') (users (db (world_of two_user_store)))"
  "distinct (map email (users (db (world_of two_user_store))))"
  "distinct (map id_U (users (db (world_of two_user_store))))"
  "isObjectIdString (id_U alice)"
  "toLowerCase (id_U alice) = id_U alice"
proof -
  show "sched (world_of two_user_store) = []"
    by (simp add: world_of_def)
  show "alice \<in> set (users (db (world_of two_user_store)))"
    by (simp add: world_of_def two_user_store_def)
  show "googleId alice = None"
    by (simp add: alice_def)
  show "email alice = email_setters ''A@x.com''"
    by (simp add: alice_def string_defs)
  show "\<not> list_ex (\<lambda>u. googleId u = Some ''g-alice'')
          (users (db (world_of two_user_store)))"
    by (simp add: world_of_def two_user_store_def alice_def bob_def)
  show "distinct (map email (users (db (world_of two_user_store))))"
    by (simp add: world_of_def two_user_store_def alice_def bob_def)
  show "distinct (map id_U (users (db (world_of two_user_store))))"
    by (simp add: world_of_def two_user_store_def alice_def bob_def example_id_def
        other_id_def)
  show "isObjectIdString (id_U alice)"
    by (simp add: alice_def isObjectIdString_examples)
  show "toLowerCase (id_U alice) = id_U alice"
    by (simp add: alice_def toLowerCase_examples)
qed

text \<open>The linking run of the example, evaluated.\<close>

lemma alice_link_run:
  "authenticateGoogleUser other_id 2000000 alice_identity (world_of two_user_store) =
     (Inr alice_linked,
      \<lparr>db = \<lparr>users = [alice_linked, bob], tokens = Map.empty\<rparr>, sched = [],
       trace =
         [(OpUserFindOneGoogleId ''g-alice'', two_user_store),
          (OpUserFindOneEmail ''a@x.com'', two_user_store),
          (OpUserFindByIdAndUpdate example_id,
           \<lparr>users = [alice_linked, bob], tokens = Map.empty\<rparr>)]\<rparr>)"
  by (simp add: reconciler_defs store_call_defs alice_identity_def alice_linked_def
      world_of_def two_user_store_def alice_def bob_def alice_email_examples
      isObjectIdString_examples toLowerCase_examples)

text \<open>
  C4. The reconciler is idempotent. When \<^verbatim>\<open>authenticateGoogleUser\<close> returns an account
  for an identity (found by the external id, linked by email or created, whatever other
  requests wrote in between), a second call for the same identity on the store the first
  one left, running alone, returns that same account, so the same id and every field as it
  was; its one store call is the lookup by external id, and the store is unchanged.
\<close>

theorem authenticateGoogleUser_idempotent:
  assumes "authenticateGoogleUser oid now g w = (Inr a, w')"
  shows "authenticateGoogleUser oid' now' g (w'\<lparr>sched := []\<rparr>) =
           (Inr a, w'\<lparr>sched := [],
                      trace := trace w' @ [(OpUserFindOneGoogleId (googleId_G g), db w')]\<rparr>)"
  using authenticateGoogleUser_result[OF assms]
  by (simp add: authenticateGoogleUser_def authenticateGoogleUser_try_def getUserByGoogleId_def
      User_findOne_googleId_def await_def interleave_def Let_def)

theorem authenticateGoogleUser_idempotent_witness:
  "fst (authenticateGoogleUser other_id 2000000 alice_identity (world_of two_user_store)) =
     Inr alice_linked
   \<and> authenticateGoogleUser example_id 3000000 alice_identity
       ((snd (authenticateGoogleUser other_id 2000000 alice_identity
                (world_of two_user_store)))\<lparr>sched := []\<rparr>) =
       (Inr alice_linked,
        \<lparr>db = \<lparr>users = [alice_linked, bob], tokens = Map.empty\<rparr>, sched = [],
         trace =
           [(OpUserFindOneGoogleId ''g-alice'', two_user_store),
            (OpUserFindOneEmail ''a@x.com'', two_user_store),
            (OpUserFindByIdAndUpdate example_id,
             \<lparr>users = [alice_linked, bob], tokens = Map.empty\<rparr>),
            (OpUserFindOneGoogleId ''g-alice'',
             \<lparr>users = [alice_linked, bob], tokens = Map.empty\<rparr>)]\<rparr>)"
proof -
  have gid: "googleId_G alice_identity = ''g-alice''"
    by (simp add: alice_identity_def)
  from authenticateGoogleUser_idempotent[OF alice_link_run, of example_id 3000000]
  show ?thesis
    by (simp add: alice_link_run gid)
qed

lemma find_distinct_key:
  "distinct (map f xs) \<Longrightarrow> a \<in> set xs \<Longrightarrow> find (\<lambda>u. f u = f a) xs = Some a"
  by (induction xs) (auto simp: image_iff)

lemma update_first_distinct_key:
  "distinct (map f xs) \<Longrightarrow>
     update_first (\<lambda>u. f u = k) y xs = map (\<lambda>u. if f u = k then y else u) xs"
proof (induction xs)
  case Nil
  then show ?case by simp
next
  case (Cons x xs)
  then have "f x = k \<Longrightarrow> map (\<lambda>u. if f u = k then y else u) xs = xs"
    by (auto simp: image_iff intro!: map_idI)
  with Cons show ?case by simp
qed

lemma lower_char_idem: "lower_char (lower_char c) = lower_char c"
  by (simp add: lower_char_def)

lemma toLowerCase_idem: "toLowerCase (toLowerCase v) = toLowerCase v"
  by (simp add: toLowerCase_def lower_char_idem)

text \<open>
  C5, as the code has it. In a store that satisfies its unique indexes on \<^verbatim>\<open>email\<close> and
  \<^verbatim>\<open>_id\<close>, for an account \<open>a\<close> that has the identity's email (as the setters fold it)
  and no external id, and when no account of the store carries the identity's external id,
  the reconciler (running alone) returns \<open>a\<close> with \<^verbatim>\<open>googleId\<close> set, with
  \<^verbatim>\<open>profilePicture\<close> set when the identity brings one, and with \<^verbatim>\<open>updatedAt\<close> set to
  the time of the call: id, role, email, password digest, name, origin and creation time
  are \<open>a\<close>'s. In the store that account is replaced by the result; no other account and
  no ledger record changes.
\<close>

theorem authenticateGoogleUser_links_by_email:
  assumes "sched w = []"
    and "a \<in> set (users (db w))" and "googleId a = None"
    and "email_G g = Some e" and "email a = email_setters e"
    and "\<not> list_ex (\<lambda>u. googleId u = Some (googleId_G g)) (users (db w))"
    and "distinct (map email (users (db w)))" and "distinct (map id_U (users (db w)))"
    and "isObjectIdString (id_U a)" and "toLowerCase (id_U a) = id_U a"
  shows "\<exists>a' w'.
           authenticateGoogleUser oid now g w = (Inr a', w')
         \<and> a' = a\<lparr>googleId := Some (googleId_G g),
                   profilePicture :=
                     (case profilePicture_G g of None \<Rightarrow> profilePicture a | Some p \<Rightarrow> Some p),
                   updatedAt := now\<rparr>
         \<and> id_U a' = id_U a \<and> role a' = role a \<and> email a' = email a
         \<and> password a' = password a \<and> name a' = name a
         \<and> authProvider a' = authProvider a \<and> createdAt a' = createdAt a
         \<and> users (db w') = map (\<lambda>u. if id_U u = id_U a then a' else u) (users (db w))
         \<and> tokens (db w') = tokens (db w)"
proof -
  let ?us = "users (db w)"
  have none: "find (\<lambda>u. googleId u = Some (googleId_G g)) ?us = None"
    using assms(6) by (auto simp: find_None_iff list_ex_iff)
  have by_email: "find (\<lambda>u. email u = email_setters (toLowerCase e)) ?us = Some a"
    using find_distinct_key[OF assms(7) assms(2)] assms(5)
    by (simp add: email_setters_def toLowerCase_idem)
  have by_id: "find (\<lambda>u. id_U u = toLowerCase (id_U a)) ?us = Some a"
    using find_distinct_key[OF assms(8) assms(2)] assms(10) by simp
  have free: "\<not> list_ex (\<lambda>v. googleId v = Some (googleId_G g) \<and> id_U v \<noteq> id_U a) ?us"
    using assms(6) by (auto simp: list_ex_iff)
  show ?thesis
    using assms(1) assms(4) assms(9) none by_email by_id free
      update_first_distinct_key[OF assms(8), of "id_U a"]
    by (simp add: authenticateGoogleUser_def authenticateGoogleUser_try_def
        getUserByGoogleId_def getUserByEmailInternal_def linkGoogleAccount_def
        User_findOne_googleId_def User_findOne_email_def User_findByIdAndUpdate_def
        await_def interleave_def Let_def)
qed

theorem authenticateGoogleUser_links_by_email_witness:
  "fst (authenticateGoogleUser other_id 2000000 alice_identity (world_of two_user_store)) =
     Inr alice_linked
   \<and> id_U alice_linked = id_U alice \<and> role alice_linked = role alice
   \<and> email alice_linked = email alice \<and> password alice_linked = password alice
   \<and> googleId alice_linked = Some ''g-alice''
   \<and> users (db (snd (authenticateGoogleUser other_id 2000000 alice_identity
                       (world_of two_user_store)))) = [alice_linked, bob]"
  using authenticateGoogleUser_links_by_email
      [where w = "world_of two_user_store" and a = alice and g = alice_identity
         and e = "''A@x.com''" and oid = other_id and now = 2000000,
       OF two_user_store_facts(1) two_user_store_facts(2) two_user_store_facts(3)]
    two_user_store_facts
  by (auto simp: alice_identity_def alice_linked_def world_of_def two_user_store_def
      alice_def bob_def)

text \<open>
  The claim as it was stated fails. The external-id lookup comes first: when another
  account already carries the external id, the reconciler returns that account, not the
  one with the identity's email, which stays as it was. And a link sets the
  \<^verbatim>\<open>updatedAt\<close> timestamp as well.
\<close>

theorem authenticateGoogleUser_links_by_email_counterexample:
  "alice \<in> set (users two_user_store) \<and> googleId alice = None
   \<and> email alice = email_setters ''A@x.com''
   \<and> authenticateGoogleUser example_id 2000000 crossed_identity (world_of two_user_store) =
       (Inr bob,
        \<lparr>db = two_user_store, sched = [],
         trace = [(OpUserFindOneGoogleId ''g-bob'', two_user_store)]\<rparr>)
   \<and> id_U bob \<noteq> id_U alice
   \<and> fst (authenticateGoogleUser other_id 2000000 alice_identity (world_of two_user_store)) =
       Inr alice_linked
   \<and> updatedAt alice = 500000 \<and> updatedAt alice_linked = 2000000"
proof -
  have crossed:
    "authenticateGoogleUser example_id 2000000 crossed_identity (world_of two_user_store) =
       (Inr bob,
        \<lparr>db = two_user_store, sched = [],
         trace = [(OpUserFindOneGoogleId ''g-bob'', two_user_store)]\<rparr>)"
    by (simp add: reconciler_defs store_call_defs crossed_identity_def world_of_def
        two_user_store_def alice_def bob_def)
  have linked:
    "fst (authenticateGoogleUser other_id 2000000 alice_identity (world_of two_user_store)) =
       Inr alice_linked"
    by (simp add: alice_link_run)
  have rest: "alice \<in> set (users two_user_store)" "googleId alice = None"
    "email alice = email_setters ''A@x.com''" "id_U bob \<noteq> id_U alice"
    "updatedAt alice = 500000" "updatedAt alice_linked = 2000000"
    by (simp_all add: two_user_store_def alice_def bob_def string_defs alice_linked_def
        example_id_def other_id_def)
  show ?thesis
    using crossed linked rest by simp
qed

lemma authenticateGoogleUser_failure:
  "fst (authenticateGoogleUser oid now g w) = Inl err \<Longrightarrow>
     err = ApiError 500 ''Failed to authenticate with Google''"
  by (auto simp: authenticateGoogleUser_def INTERNAL_SERVER_ERROR_def
      split: prod.splits sum.splits)

text \<open>
  C2 does not hold of the code. Another request registers the identity's email between
  this request's lookups and its save; the save is rejected by the unique index,
  \<^verbatim>\<open>createGoogleUser\<close> turns that into \<^verbatim>\<open>ApiError(409, 'Email already exists')\<close>,
  and the \<^verbatim>\<open>catch\<close> of \<^verbatim>\<open>authenticateGoogleUser\<close> replaces it by
  \<^verbatim>\<open>ApiError(500, 'Failed to authenticate with Google')\<close>, which the error handler
  sends as a 500.
\<close>

theorem authenticateGoogleUser_conflict_replaced:
  "fst (authenticateGoogleUser_try other_id 2000000 carol_identity racing_world) =
     Inl (ApiError 409 ''Email already exists'')
   \<and> fst (authenticateGoogleUser other_id 2000000 carol_identity racing_world) =
     Inl (ApiError 500 ''Failed to authenticate with Google'')
   \<and> errorHandler (ApiError 500 ''Failed to authenticate with Google'') =
     \<lparr>status = 500,
      body = JObject [(''error'', JObject [(''statusCode'', JNumber 500),
               (''message'', JString ''Failed to authenticate with Google'')])]\<rparr>"
  by (simp add: reconciler_defs carol_identity_def racing_world_def store_call_defs string_defs
      alice_def validate_User_def email_match_def ALL_ROLES_def Role_defs httpStatus_defs
      errorHandler_def other_id_def example_id_def)

end
